theory Spec2Isabelle
  imports Main "HOL-Library.AList" "HOL-Library.Sublist"
begin

section \<open>Values and failures\<close>

text \<open>
  The route compiler of \<^verbatim>\<open>python/ambassador/envoy/v2/v2route.py\<close> reads
  dictionary-like objects (a mapping group, a mapping) and builds nested Python
  dictionaries. Both sides are modelled by one JSON-like universe; a dictionary is an
  association list in insertion order, as Python keeps it. Floats are not part of the
  universe.
\<close>

datatype pyval =
    PNone
  | PBool bool
  | PInt int
  | PStr string
  | PList "pyval list"
  | PDict "(string \<times> pyval) list"

type_synonym pydict = "(string \<times> pyval) list"

text \<open>
  The exceptions the code can raise. \<open>OutOfModel\<close> marks the few inputs on which
  Python's result is not expressed here (formatting a container in an f-string, a timeout
  beyond the exactly representable range, host sets that hold something other than
  strings): it is never the result on the inputs that the statements below are about.
\<close>

datatype error =
  AttributeError | KeyError | IndexError | TypeError | AssertionError | OutOfModel

definition ebind :: "error + 'a \<Rightarrow> ('a \<Rightarrow> error + 'b) \<Rightarrow> error + 'b" where
  "ebind m f = (case m of Inl e \<Rightarrow> Inl e | Inr x \<Rightarrow> f x)"

text \<open>A loop body that may raise, run over a list from left to right.\<close>

fun emap :: "('a \<Rightarrow> error + 'b) \<Rightarrow> 'a list \<Rightarrow> error + 'b list" where
  "emap f [] = Inr []"
| "emap f (x # xs) = ebind (f x) (\<lambda>y. ebind (emap f xs) (\<lambda>ys. Inr (y # ys)))"

subsection \<open>Dictionaries\<close>

text \<open>\<^verbatim>\<open>d[k] = v\<close>: an existing key keeps its position, a new key goes last.\<close>

definition dict_set :: "pydict \<Rightarrow> string \<Rightarrow> pyval \<Rightarrow> pydict" where
  "dict_set d k v = AList.update k v d"

text \<open>\<^verbatim>\<open>d.update(e)\<close>: the entries of \<open>e\<close> are stored one by one, in order.\<close>

definition dict_update :: "pydict \<Rightarrow> pydict \<Rightarrow> pydict" where
  "dict_update d e = fold (\<lambda>kv acc. AList.update (fst kv) (snd kv) acc) e d"

text \<open>The entry under a key, if there is one; \<^verbatim>\<open>k in d\<close> is \<open>dict_find d k \<noteq> None\<close>.\<close>

definition dict_find :: "pydict \<Rightarrow> string \<Rightarrow> pyval option" where
  "dict_find d k = map_of d k"

text \<open>\<^verbatim>\<open>d.get(k)\<close> and \<^verbatim>\<open>d.get(k, default)\<close>.\<close>

definition dict_get :: "pydict \<Rightarrow> string \<Rightarrow> pyval" where
  "dict_get d k = (case map_of d k of None \<Rightarrow> PNone | Some v \<Rightarrow> v)"

definition dict_get_default :: "pydict \<Rightarrow> string \<Rightarrow> pyval \<Rightarrow> pyval" where
  "dict_get_default d k dflt = (case map_of d k of None \<Rightarrow> dflt | Some v \<Rightarrow> v)"

text \<open>\<^verbatim>\<open>d[k]\<close> raises \<^verbatim>\<open>KeyError\<close> on an absent key.\<close>

definition dict_item :: "pydict \<Rightarrow> string \<Rightarrow> error + pyval" where
  "dict_item d k = (case map_of d k of None \<Rightarrow> Inl KeyError | Some v \<Rightarrow> Inr v)"

text \<open>
  Modelled from the spec: the classes of the intermediate representation
  (\<^verbatim>\<open>IRHTTPMappingGroup\<close>, \<^verbatim>\<open>IRBaseMapping\<close>, clusters, redirects, shadows) are
  not among the sources. They are dictionaries whose attributes (\<^verbatim>\<open>mapping.cluster\<close>,
  \<^verbatim>\<open>cluster.envoy_name\<close>, \<^verbatim>\<open>group.group_id\<close>, ...) are their entries, so reading
  an attribute is reading a key, and an absent one raises \<^verbatim>\<open>AttributeError\<close>, as it
  does on the plain empty dictionary that stands for the synthetic empty mapping.
\<close>

definition dict_attr :: "pydict \<Rightarrow> string \<Rightarrow> error + pyval" where
  "dict_attr d k = (case map_of d k of None \<Rightarrow> Inl AttributeError | Some v \<Rightarrow> Inr v)"

subsection \<open>Operations on values of unknown type\<close>

text \<open>
  A method call (\<^verbatim>\<open>.get\<close>, \<^verbatim>\<open>.items\<close>) or an attribute read on something that
  is not a dictionary raises \<^verbatim>\<open>AttributeError\<close>.
\<close>

definition as_dict :: "pyval \<Rightarrow> error + pydict" where
  "as_dict v = (case v of PDict d \<Rightarrow> Inr d | _ \<Rightarrow> Inl AttributeError)"

definition py_get :: "pyval \<Rightarrow> string \<Rightarrow> error + pyval" where
  "py_get v k = ebind (as_dict v) (\<lambda>d. Inr (dict_get d k))"

definition py_attr :: "pyval \<Rightarrow> string \<Rightarrow> error + pyval" where
  "py_attr v k = ebind (as_dict v) (\<lambda>d. dict_attr d k)"

text \<open>\<^verbatim>\<open>v[k]\<close> with a string key: only a dictionary takes one.\<close>

definition py_item :: "pyval \<Rightarrow> string \<Rightarrow> error + pyval" where
  "py_item v k = (case v of PDict d \<Rightarrow> dict_item d k | _ \<Rightarrow> Inl TypeError)"

text \<open>
  \<^verbatim>\<open>for x in v\<close>: a list gives its elements, a dictionary its keys, a string its
  characters; nothing else can be iterated.
\<close>

definition py_iter :: "pyval \<Rightarrow> error + pyval list" where
  "py_iter v = (case v of
       PList xs \<Rightarrow> Inr xs
     | PDict d \<Rightarrow> Inr (map (\<lambda>kv. PStr (fst kv)) d)
     | PStr s \<Rightarrow> Inr (map (\<lambda>c. PStr [c]) s)
     | _ \<Rightarrow> Inl TypeError)"

text \<open>
  \<^verbatim>\<open>v[0]\<close>: the head of a list, the first character of a string; the dictionaries
  here have string keys only, so \<open>0\<close> is never one of them.
\<close>

definition py_index0 :: "pyval \<Rightarrow> error + pyval" where
  "py_index0 v = (case v of
       PList xs \<Rightarrow> (case xs of [] \<Rightarrow> Inl IndexError | x # _ \<Rightarrow> Inr x)
     | PStr s \<Rightarrow> (case s of [] \<Rightarrow> Inl IndexError | c # _ \<Rightarrow> Inr (PStr [c]))
     | PDict d \<Rightarrow> Inl KeyError
     | _ \<Rightarrow> Inl TypeError)"

text \<open>Python's truth value of an object.\<close>

fun truthy :: "pyval \<Rightarrow> bool" where
  "truthy PNone = False"
| "truthy (PBool b) = b"
| "truthy (PInt n) = (n \<noteq> 0)"
| "truthy (PStr s) = (s \<noteq> [])"
| "truthy (PList xs) = (xs \<noteq> [])"
| "truthy (PDict d) = (d \<noteq> [])"

subsection \<open>Strings and numbers\<close>

text \<open>
  \<^verbatim>\<open>str.lower()\<close> on the ASCII letters. The only use compares the result with
  \<^verbatim>\<open>'unsafe'\<close>, and no character outside ASCII lower-cases to one of its letters.
\<close>

definition lower_char :: "char \<Rightarrow> char" where
  "lower_char c =
     (let n = (of_char c :: nat) in if 65 \<le> n \<and> n \<le> 90 then char_of (n + 32) else c)"

definition lower :: "string \<Rightarrow> string" where
  "lower s = map lower_char s"

text \<open>Decimal digits of a natural number and of an integer, as \<^verbatim>\<open>str\<close> prints them.\<close>

definition digit_char :: "nat \<Rightarrow> char" where
  "digit_char d = char_of (48 + d)"

fun show_nat :: "nat \<Rightarrow> string" where
  "show_nat n = (if n < 10 then [digit_char n] else show_nat (n div 10) @ [digit_char (n mod 10)])"

definition show_int :: "int \<Rightarrow> string" where
  "show_int i = (if i < 0 then CHR ''-'' # show_nat (nat (- i)) else show_nat (nat i))"

text \<open>
  \<^verbatim>\<open>"%0.3fs" % (ms / 1000.0)\<close> for an integer number of milliseconds. The float
  division and the rounding of the format to three decimals give the exact decimal
  \<open>ms / 1000\<close> as long as \<open>|ms| < 10^15\<close>; beyond that the double is too coarse and
  the result is left out of the model. A Boolean counts as \<open>0\<close> or \<open>1\<close>; any other
  operand of the division raises \<^verbatim>\<open>TypeError\<close>.
\<close>

definition format_ms :: "int \<Rightarrow> string" where
  "format_ms ms =
     (let a = nat \<bar>ms\<bar>; frac = a mod 1000
      in (if ms < 0 then ''-'' else [])
         @ show_nat (a div 1000) @ ''.''
         @ [digit_char (frac div 100), digit_char (frac div 10 mod 10), digit_char (frac mod 10)]
         @ ''s'')"

definition format_timeout :: "pyval \<Rightarrow> error + pyval" where
  "format_timeout v =
     (case v of
        PInt n \<Rightarrow> if \<bar>n\<bar> < 10 ^ 15 then Inr (PStr (format_ms n)) else Inl OutOfModel
      | PBool b \<Rightarrow> Inr (PStr (format_ms (if b then 1 else 0)))
      | _ \<Rightarrow> Inl TypeError)"

text \<open>What an f-string prints for a value; the \<^verbatim>\<open>repr\<close> of a container is left out.\<close>

definition py_fstr :: "pyval \<Rightarrow> error + string" where
  "py_fstr v =
     (case v of
        PStr s \<Rightarrow> Inr s
      | PNone \<Rightarrow> Inr ''None''
      | PBool b \<Rightarrow> Inr (if b then ''True'' else ''False'')
      | PInt n \<Rightarrow> Inr (show_int n)
      | _ \<Rightarrow> Inl OutOfModel)"

section \<open>Configuration and collaborators\<close>

text \<open>
  \<^verbatim>\<open>config.ir\<close>: the attributes and module keys this file reads. A module field that
  is \<open>None\<close> is a key the module does not carry. \<^verbatim>\<open>regex_type\<close> is a string and
  \<^verbatim>\<open>regex_max_size\<close> an integer, on which \<^verbatim>\<open>int(...)\<close> is the identity. The
  CORS and retry objects are opaque to this file. A rate-limit service that is configured
  is an object that counts as true.
\<close>

record ambassador_module =
  regex_type :: "string option"
  regex_max_size :: "int option"
  module_cors :: "pyval option"
  module_retry_policy :: "pyval option"

record ratelimit =
  domain :: string

record ir =
  ambassador_module :: ambassador_module
  edge_stack_allowed :: bool
  ir_ratelimit :: "ratelimit option"

record v2config =
  ir :: ir

text \<open>
  The collaborators that this file calls and that are not among the sources are
  parameters of the model: the path classification \<^verbatim>\<open>EnvoyRoute(group).envoy_route\<close>,
  the serialisation of a CORS object after \<^verbatim>\<open>dup()\<close> and \<^verbatim>\<open>set_id(group_id)\<close>,
  the serialisation of a retry policy, and the rate-limit action translator, which gives the
  action's dictionary when the action is valid.
\<close>

record externals =
  envoy_route_of :: "pydict \<Rightarrow> string"
  cors_as_dict :: "pyval \<Rightarrow> pyval \<Rightarrow> pyval"
  retry_as_dict :: "pyval \<Rightarrow> pyval"
  rate_limit_action :: "v2config \<Rightarrow> pyval \<Rightarrow> pyval option"

section \<open>Regex safety policy\<close>

text \<open>
  \<^verbatim>\<open>regex_matcher(config, regex, key="regex", safe_key=None, re_type=None)\<close>. The
  keyword arguments are explicit here; a caller that leaves \<^verbatim>\<open>key\<close> out passes
  \<open>''regex''\<close>. The pattern is stored as it comes. The debug log line has no effect on
  the result.
\<close>

definition regex_matcher ::
  "v2config \<Rightarrow> pyval \<Rightarrow> string \<Rightarrow> string option \<Rightarrow> string option \<Rightarrow> pydict" where
  "regex_matcher config regex key safe_key re_type =
     (let re_type' = (case re_type of
                        None \<Rightarrow> lower (case regex_type (ambassador_module (ir config)) of
                                         None \<Rightarrow> ''safe'' | Some t \<Rightarrow> t)
                      | Some t \<Rightarrow> t)
      in if re_type' \<noteq> ''unsafe'' then
           (let max_size = (case regex_max_size (ambassador_module (ir config)) of
                              None \<Rightarrow> 200 | Some n \<Rightarrow> n);
                safe_key' = (case safe_key of
                               None \<Rightarrow> ''safe_'' @ key
                             | Some k \<Rightarrow> if k = [] then ''safe_'' @ key else k)
            in [(safe_key',
                 PDict [(''google_re2'', PDict [(''max_program_size'', PInt max_size)]),
                        (''regex'', regex)])])
         else [(key, regex)])"

section \<open>Host globs\<close>

text \<open>
  \<^verbatim>\<open>hostglob_matches(glob: str, value: str)\<close>. Two of the branches end without a
  \<^verbatim>\<open>return\<close> when their test fails, so the function returns Python's \<open>None\<close>
  there: the result is \<open>Some True\<close>, \<open>Some False\<close> or \<open>None\<close>.
  \<^verbatim>\<open>glob[:-1]\<close> is \<open>butlast\<close>, \<^verbatim>\<open>glob[1:]\<close> is \<open>tl\<close>.
\<close>

definition hostglob_matches :: "string \<Rightarrow> string \<Rightarrow> bool option" where
  "hostglob_matches glob val =
     (if glob = ''*'' then Some True
      else if suffix ''*'' glob then
        (if prefix (butlast glob) val then Some True else None)
      else if prefix ''*'' glob then
        (if suffix (tl glob) val then Some True else None)
      else Some (val = glob))"

text \<open>The truth value of such a result, as \<^verbatim>\<open>any(...)\<close> reads it.\<close>

definition truthy_result :: "bool option \<Rightarrow> bool" where
  "truthy_result r = (r = Some True)"

section \<open>Building a route\<close>

subsection \<open>Header and query-parameter matchers\<close>

text \<open>The body of the loop of \<^verbatim>\<open>generate_headers\<close>, and the loop.\<close>

definition generate_header :: "v2config \<Rightarrow> pyval \<Rightarrow> error + pyval" where
  "generate_header config group_header =
     ebind (py_get group_header ''name'') (\<lambda>name.
     ebind (py_get group_header ''regex'') (\<lambda>is_regex.
     ebind (py_get group_header ''value'') (\<lambda>v.
       Inr (PDict
         (if truthy is_regex
          then dict_update [(''name'', name)] (regex_matcher config v ''regex_match'' None None)
          else dict_set [(''name'', name)] ''exact_match'' v)))))"

definition generate_headers :: "v2config \<Rightarrow> pydict \<Rightarrow> error + pyval list" where
  "generate_headers config mapping_group =
     ebind (py_iter (dict_get_default mapping_group ''headers'' (PList [])))
       (emap (generate_header config))"

definition generate_query_parameter :: "v2config \<Rightarrow> pyval \<Rightarrow> error + pyval" where
  "generate_query_parameter config group_query_parameter =
     ebind (py_get group_query_parameter ''name'') (\<lambda>name.
     ebind (py_get group_query_parameter ''regex'') (\<lambda>is_regex.
     ebind (py_get group_query_parameter ''value'') (\<lambda>v.
       Inr (PDict
         (if truthy is_regex
          then dict_update [(''name'', name)]
                 [(''string_match'', PDict (regex_matcher config v ''regex'' None None))]
          else if v \<noteq> PNone
          then dict_update [(''name'', name)] [(''string_match'', PDict [(''exact'', v)])]
          else dict_update [(''name'', name)] [(''present_match'', PBool True)])))))"

definition generate_query_parameters :: "v2config \<Rightarrow> pydict \<Rightarrow> error + pyval list" where
  "generate_query_parameters config mapping_group =
     ebind (py_iter (dict_get_default mapping_group ''query_parameters'' (PList [])))
       (emap (generate_query_parameter config))"

subsection \<open>Hash policy\<close>

definition generate_hash_policy :: "pydict \<Rightarrow> error + pydict" where
  "generate_hash_policy mapping_group =
     (let load_balancer = dict_get_default mapping_group ''load_balancer'' PNone
      in if load_balancer \<noteq> PNone then
           ebind (py_get load_balancer ''policy'') (\<lambda>lb_policy.
             if lb_policy = PStr ''ring_hash'' \<or> lb_policy = PStr ''maglev'' then
               ebind (py_get load_balancer ''cookie'') (\<lambda>cookie.
               ebind (py_get load_balancer ''header'') (\<lambda>header.
               ebind (py_get load_balancer ''source_ip'') (\<lambda>source_ip.
                 if cookie \<noteq> PNone then
                   ebind (as_dict cookie) (\<lambda>c.
                     let c0 = [(''name'', dict_get c ''name'')];
                         c1 = (if dict_find c ''path'' \<noteq> None
                               then dict_set c0 ''path'' (dict_get c ''path'') else c0);
                         c2 = (if dict_find c ''ttl'' \<noteq> None
                               then dict_set c1 ''ttl'' (dict_get c ''ttl'') else c1)
                     in Inr [(''cookie'', PDict c2)])
                 else if header \<noteq> PNone then
                   Inr [(''header'', PDict [(''header_name'', header)])]
                 else if source_ip \<noteq> PNone then
                   Inr [(''connection_properties'', PDict [(''source_ip'', source_ip)])]
                 else Inr [])))
             else Inr [])
         else Inr [])"

subsection \<open>Headers to add\<close>

definition header_to_add :: "string \<times> pyval \<Rightarrow> error + pyval" where
  "header_to_add kv =
     (case snd kv of
        PDict d \<Rightarrow>
          (let append = (case map_of d ''append'' of None \<Rightarrow> True | Some a \<Rightarrow> truthy a)
           in ebind (dict_item d ''value'') (\<lambda>v.
                Inr (PDict [(''header'', PDict [(''key'', PStr (fst kv)), (''value'', v)]),
                            (''append'', PBool append)])))
      | v \<Rightarrow> Inr (PDict [(''header'', PDict [(''key'', PStr (fst kv)), (''value'', v)]),
                         (''append'', PBool True)]))"

definition generate_headers_to_add :: "pyval \<Rightarrow> error + pyval list" where
  "generate_headers_to_add header_dict = ebind (as_dict header_dict) (emap header_to_add)"

subsection \<open>Regex rewrite\<close>

text \<open>
  \<^verbatim>\<open>generate_regex_rewrite\<close>. The two lines that read the substitution stand after
  the \<^verbatim>\<open>if group_regex_rewrite is not None\<close> block, not inside it: they call
  \<^verbatim>\<open>.get\<close> on whatever \<^verbatim>\<open>mapping_group.get('regex_rewrite', None)\<close> gave,
  also on \<open>None\<close>.
\<close>

definition generate_regex_rewrite :: "v2config \<Rightarrow> pydict \<Rightarrow> error + pydict" where
  "generate_regex_rewrite config mapping_group =
     (let group_regex_rewrite = dict_get_default mapping_group ''regex_rewrite'' PNone
      in ebind (if group_regex_rewrite \<noteq> PNone then
                  ebind (py_get group_regex_rewrite ''pattern'') (\<lambda>pattern.
                    Inr (if pattern \<noteq> PNone
                         then dict_update []
                                (regex_matcher config pattern ''regex'' (Some ''pattern'') (Some ''safe''))
                         else []))
                else Inr [])
           (\<lambda>regex_rewrite.
              ebind (py_get group_regex_rewrite ''substitution'') (\<lambda>substitution.
                Inr (if substitution \<noteq> PNone
                     then dict_set regex_rewrite ''substitution'' substitution
                     else regex_rewrite))))"

subsection \<open>The constructor\<close>

text \<open>
  A \<^verbatim>\<open>V2Route\<close> is a dictionary with the \<^verbatim>\<open>cache_key\<close> attribute of a
  \<^verbatim>\<open>Cacheable\<close>.
\<close>

record v2route =
  cache_key :: "string option"
  entries :: pydict

text \<open>\<^verbatim>\<open>mapping.cluster.envoy_name\<close>, and the same on a shadow.\<close>

definition cluster_envoy_name :: "pydict \<Rightarrow> error + pyval" where
  "cluster_envoy_name mapping =
     ebind (dict_attr mapping ''cluster'') (\<lambda>cluster. py_attr cluster ''envoy_name'')"

text \<open>
  \<^verbatim>\<open>V2Route.__init__\<close> is one long function; it is cut here into its paragraphs.
  First the SNI and precedence annotations (the lines under "Stash SNI and precedence
  info").
\<close>

definition stash_info :: "pydict \<Rightarrow> error + pydict" where
  "stash_info irgroup =
     ebind (if truthy (dict_get irgroup ''sni'') then
              ebind (dict_item irgroup ''tls_context'') (\<lambda>tls_context.
              ebind (py_item tls_context ''hosts'') (\<lambda>hosts.
              ebind (py_item tls_context ''secret_info'') (\<lambda>secret_info.
                Inr (dict_set [] ''_sni''
                       (PDict [(''hosts'', hosts), (''secret_info'', secret_info)])))))
            else Inr [])
       (\<lambda>self.
          Inr (if truthy (dict_get irgroup ''precedence'')
               then dict_set self ''_precedence'' (dict_get irgroup ''precedence'')
               else self))"

text \<open>
  The match clause, from \<^verbatim>\<open>envoy_route = EnvoyRoute(group).envoy_route\<close> to the
  last update of \<^verbatim>\<open>match\<close>, in three steps. The runtime fraction first: the
  default value always, the runtime key when \<^verbatim>\<open>len(mapping) > 0\<close>.
\<close>

definition build_runtime_fraction :: "pydict \<Rightarrow> error + pydict" where
  "build_runtime_fraction mapping =
     (let runtime_fraction =
            [(''default_value'',
              PDict [(''numerator'', dict_get_default mapping ''weight'' (PInt 100)),
                     (''denominator'', PStr ''HUNDRED'')])]
      in if mapping \<noteq> [] then
           ebind (cluster_envoy_name mapping) (\<lambda>name.
           ebind (py_fstr name) (\<lambda>s.
             Inr (dict_set runtime_fraction ''runtime_key''
                    (PStr (''routing.traffic_shift.'' @ s)))))
         else Inr runtime_fraction)"

text \<open>The effective path value: the mapping's own prefix, else the group's.\<close>

definition route_prefix_of :: "pydict \<Rightarrow> pydict \<Rightarrow> pyval" where
  "route_prefix_of irgroup mapping =
     (let mapping_prefix = dict_get_default mapping ''prefix'' PNone
      in if mapping_prefix \<noteq> PNone then mapping_prefix else dict_get irgroup ''prefix'')"

text \<open>
  The dispatch on the path form, applied to the match clause built so far. \<open>self\<close> is
  the route under construction, read for its recorded precedence.
\<close>

definition add_path_match ::
  "v2config \<Rightarrow> externals \<Rightarrow> pydict \<Rightarrow> pydict \<Rightarrow> pydict \<Rightarrow> pydict \<Rightarrow> pydict" where
  "add_path_match config ext irgroup mapping self match =
     (let envoy_route = envoy_route_of ext irgroup;
          route_prefix = route_prefix_of irgroup mapping
      in if envoy_route = ''prefix'' then dict_set match ''prefix'' route_prefix
         else if envoy_route = ''path'' then dict_set match ''path'' route_prefix
         else if edge_stack_allowed (ir config)
                 \<and> dict_get_default self ''_precedence'' (PInt 0) = PInt (- 1000000)
         then dict_update match
                [(''safe_regex'',
                  PDict [(''google_re2'', PDict [(''max_program_size'', PInt 200)]),
                         (''regex'', route_prefix)])]
         else dict_update match (regex_matcher config route_prefix ''regex'' None None))"

definition build_match ::
  "v2config \<Rightarrow> externals \<Rightarrow> pydict \<Rightarrow> pydict \<Rightarrow> pydict \<Rightarrow> error + pydict" where
  "build_match config ext irgroup mapping self =
     (let mapping_case_sensitive = dict_get_default mapping ''case_sensitive'' PNone;
          case_sensitive = (if mapping_case_sensitive \<noteq> PNone then mapping_case_sensitive
                            else dict_get_default irgroup ''case_sensitive'' (PBool True))
      in ebind (build_runtime_fraction mapping) (\<lambda>runtime_fraction.
           let match = add_path_match config ext irgroup mapping self
                         [(''case_sensitive'', case_sensitive),
                          (''runtime_fraction'', PDict runtime_fraction)]
           in ebind (generate_headers config irgroup) (\<lambda>headers.
              let match1 = (if headers \<noteq> [] then dict_set match ''headers'' (PList headers)
                            else match)
              in ebind (generate_query_parameters config irgroup) (\<lambda>query_parameters.
                   Inr (if query_parameters \<noteq> []
                        then dict_set match1 ''query_parameters'' (PList query_parameters)
                        else match1)))))"

text \<open>
  The fields that both kinds of route carry: the per-filter configuration and the header
  lists to add and to remove.
\<close>

definition as_list :: "pyval \<Rightarrow> pyval" where
  "as_list v = (case v of PList xs \<Rightarrow> PList xs | _ \<Rightarrow> PList [v])"

definition add_header_fields :: "pydict \<Rightarrow> pydict \<Rightarrow> pydict \<Rightarrow> error + pydict" where
  "add_header_fields irgroup mapping self =
     (let per_filter_config =
            (if truthy (dict_get_default mapping ''bypass_auth'' (PBool False))
             then [(''envoy.ext_authz'', PDict [(''disabled'', PBool True)])] else []);
          self1 = (if per_filter_config \<noteq> []
                   then dict_set self ''per_filter_config'' (PDict per_filter_config) else self);
          request_headers_to_add = dict_get_default irgroup ''add_request_headers'' PNone
      in ebind (if truthy request_headers_to_add then
                  ebind (generate_headers_to_add request_headers_to_add) (\<lambda>hs.
                    Inr (dict_set self1 ''request_headers_to_add'' (PList hs)))
                else Inr self1)
           (\<lambda>self2.
              let response_headers_to_add = dict_get_default irgroup ''add_response_headers'' PNone
              in ebind (if truthy response_headers_to_add then
                          ebind (generate_headers_to_add response_headers_to_add) (\<lambda>hs.
                            Inr (dict_set self2 ''response_headers_to_add'' (PList hs)))
                        else Inr self2)
                   (\<lambda>self3.
                      let request_headers_to_remove =
                            dict_get_default irgroup ''remove_request_headers'' PNone;
                          self4 = (if truthy request_headers_to_remove
                                   then dict_set self3 ''request_headers_to_remove''
                                          (as_list request_headers_to_remove)
                                   else self3);
                          response_headers_to_remove =
                            dict_get_default irgroup ''remove_response_headers'' PNone
                      in Inr (if truthy response_headers_to_remove
                              then dict_set self4 ''response_headers_to_remove''
                                     (as_list response_headers_to_remove)
                              else self4))))"

text \<open>The redirect clause of a group with a \<^verbatim>\<open>host_redirect\<close>.\<close>

definition build_redirect :: "pyval \<Rightarrow> error + pydict" where
  "build_redirect host_redirect =
     ebind (py_attr host_redirect ''service'') (\<lambda>service.
     ebind (py_get host_redirect ''path_redirect'') (\<lambda>path_redirect.
       Inr (if truthy path_redirect
            then dict_set [(''host_redirect'', service)] ''path_redirect'' path_redirect
            else [(''host_redirect'', service)])))"

text \<open>
  The route clause, paragraph by paragraph. First the literal
  \<^verbatim>\<open>{'priority': ..., 'timeout': ..., 'cluster': ...}\<close> and the idle timeout.
\<close>

definition route_base :: "pydict \<Rightarrow> pydict \<Rightarrow> error + pydict" where
  "route_base irgroup mapping =
     ebind (format_timeout (dict_get_default mapping ''timeout_ms'' (PInt 3000))) (\<lambda>timeout.
     ebind (cluster_envoy_name mapping) (\<lambda>cluster.
       let route = [(''priority'', dict_get irgroup ''priority''),
                    (''timeout'', timeout),
                    (''cluster'', cluster)];
           idle_timeout_ms = dict_get_default mapping ''idle_timeout_ms'' PNone
       in if idle_timeout_ms \<noteq> PNone then
            ebind (format_timeout idle_timeout_ms) (\<lambda>t. Inr (dict_set route ''idle_timeout'' t))
          else Inr route))"

text \<open>The rewrites: regex rewrite or prefix rewrite, then the two host rewrites.\<close>

definition route_rewrite :: "v2config \<Rightarrow> pydict \<Rightarrow> pydict \<Rightarrow> pydict \<Rightarrow> error + pydict" where
  "route_rewrite config irgroup mapping route =
     ebind (generate_regex_rewrite config irgroup) (\<lambda>regex_rewrite.
       let route1 = (if regex_rewrite \<noteq> [] then
                       dict_set route ''regex_rewrite'' (PDict regex_rewrite)
                     else if truthy (dict_get_default mapping ''rewrite'' PNone) then
                       dict_set route ''prefix_rewrite'' (dict_get mapping ''rewrite'')
                     else route);
           route2 = (if dict_find mapping ''host_rewrite'' \<noteq> None
                     then dict_set route1 ''host_rewrite'' (dict_get mapping ''host_rewrite'')
                     else route1)
       in Inr (if dict_find mapping ''auto_host_rewrite'' \<noteq> None
               then dict_set route2 ''auto_host_rewrite'' (dict_get mapping ''auto_host_rewrite'')
               else route2))"

definition route_hash_policy :: "pydict \<Rightarrow> pydict \<Rightarrow> error + pydict" where
  "route_hash_policy irgroup route =
     ebind (generate_hash_policy irgroup) (\<lambda>hash_policy.
       Inr (if hash_policy \<noteq> []
            then dict_set route ''hash_policy'' (PList [PDict hash_policy])
            else route))"

definition route_cors :: "v2config \<Rightarrow> externals \<Rightarrow> pydict \<Rightarrow> pydict \<Rightarrow> error + pydict" where
  "route_cors config ext irgroup route =
     (let cors = (if dict_find irgroup ''cors'' \<noteq> None then dict_get irgroup ''cors''
                  else case module_cors (ambassador_module (ir config)) of
                         None \<Rightarrow> PNone | Some c \<Rightarrow> c)
      in if truthy cors then
           ebind (dict_attr irgroup ''group_id'') (\<lambda>group_id.
             Inr (dict_set route ''cors'' (cors_as_dict ext cors group_id)))
         else Inr route)"

definition route_retry_policy :: "v2config \<Rightarrow> externals \<Rightarrow> pydict \<Rightarrow> pydict \<Rightarrow> pydict" where
  "route_retry_policy config ext irgroup route =
     (let retry_policy =
            (if dict_find irgroup ''retry_policy'' \<noteq> None
             then retry_as_dict ext (dict_get irgroup ''retry_policy'')
             else case module_retry_policy (ambassador_module (ir config)) of
                    None \<Rightarrow> PNone | Some r \<Rightarrow> retry_as_dict ext r)
      in if truthy retry_policy then dict_set route ''retry_policy'' retry_policy else route)"

definition route_shadow :: "pydict \<Rightarrow> pydict \<Rightarrow> error + pydict" where
  "route_shadow irgroup route =
     (let shadows = dict_get_default irgroup ''shadows'' PNone
      in if truthy shadows then
           ebind (py_index0 shadows) (\<lambda>shadow.
           ebind (as_dict shadow) (\<lambda>sh.
             let weight = dict_get_default sh ''weight'' (PInt 100)
             in ebind (cluster_envoy_name sh) (\<lambda>cluster.
                  Inr (dict_set route ''request_mirror_policy''
                         (PDict [(''cluster'', cluster),
                                 (''runtime_fraction'',
                                  PDict [(''default_value'',
                                          PDict [(''numerator'', weight),
                                                 (''denominator'', PStr ''HUNDRED'')])])])))))
         else Inr route)"

definition route_rate_limits ::
  "v2config \<Rightarrow> externals \<Rightarrow> pydict \<Rightarrow> pydict \<Rightarrow> error + pydict" where
  "route_rate_limits config ext irgroup route =
     (case ir_ratelimit (ir config) of
        None \<Rightarrow> Inr route
      | Some rlsvc \<Rightarrow>
          if dict_find irgroup ''labels'' \<noteq> None then
            ebind (as_dict (dict_get irgroup ''labels'')) (\<lambda>labels.
            ebind (py_iter (dict_get_default labels (domain rlsvc) (PList []))) (\<lambda>rls.
              let rate_limits = List.map_filter (rate_limit_action ext config) rls
              in Inr (if rate_limits \<noteq> []
                      then dict_set route ''rate_limits'' (PList rate_limits)
                      else route)))
          else Inr route)"

definition route_upgrade :: "pydict \<Rightarrow> pydict \<Rightarrow> error + pydict" where
  "route_upgrade irgroup route =
     (if truthy (dict_get irgroup ''allow_upgrade'') then
        ebind (py_iter (dict_get_default irgroup ''allow_upgrade'' (PList []))) (\<lambda>protos.
          Inr (dict_set route ''upgrade_configs''
                 (PList (map (\<lambda>proto. PDict [(''upgrade_type'', proto)]) protos))))
      else Inr route)"

definition build_route ::
  "v2config \<Rightarrow> externals \<Rightarrow> pydict \<Rightarrow> pydict \<Rightarrow> error + pydict" where
  "build_route config ext irgroup mapping =
     ebind (route_base irgroup mapping) (\<lambda>route.
     ebind (route_rewrite config irgroup mapping route) (\<lambda>route.
     ebind (route_hash_policy irgroup route) (\<lambda>route.
     ebind (route_cors config ext irgroup route) (\<lambda>route.
     ebind (route_shadow irgroup (route_retry_policy config ext irgroup route)) (\<lambda>route.
     ebind (route_rate_limits config ext irgroup route) (\<lambda>route.
       route_upgrade irgroup route))))))"

text \<open>
  \<^verbatim>\<open>V2Route(config, group, mapping)\<close>: the route, or the exception that left the
  constructor. A group with a true \<^verbatim>\<open>host_redirect\<close> gets a redirect clause and the
  constructor returns there; every other group gets a route clause.
\<close>

definition V2Route_init ::
  "v2config \<Rightarrow> externals \<Rightarrow> pydict \<Rightarrow> pydict \<Rightarrow> error + v2route" where
  "V2Route_init config ext irgroup mapping =
     ebind (stash_info irgroup) (\<lambda>self.
     ebind (build_match config ext irgroup mapping self) (\<lambda>match.
     ebind (add_header_fields irgroup mapping (dict_set self ''match'' (PDict match))) (\<lambda>self.
       let host_redirect = dict_get_default irgroup ''host_redirect'' PNone
       in if truthy host_redirect then
            ebind (build_redirect host_redirect) (\<lambda>redirect.
              Inr \<lparr>cache_key = None, entries = dict_set self ''redirect'' (PDict redirect)\<rparr>)
          else
            ebind (build_route config ext irgroup mapping) (\<lambda>route.
              Inr \<lparr>cache_key = None, entries = dict_set self ''route'' (PDict route)\<rparr>))))"

section \<open>Host constraints\<close>

text \<open>\<^verbatim>\<open>v.get(k, default)\<close> on a value of unknown type.\<close>

definition py_get_default :: "pyval \<Rightarrow> string \<Rightarrow> pyval \<Rightarrow> error + pyval" where
  "py_get_default v k dflt = ebind (as_dict v) (\<lambda>d. Inr (dict_get_default d k dflt))"

text \<open>
  \<^verbatim>\<open>set(hosts)\<close>, as the list of the strings that \<^verbatim>\<open>hosts\<close> yields; the set
  itself is \<open>set\<close> of that list. The function is declared to return a \<^verbatim>\<open>Set[str]\<close>:
  a host that is not a string is left out of the model.
\<close>

fun str_items :: "pyval list \<Rightarrow> error + string list" where
  "str_items [] = Inr []"
| "str_items (PStr s # vs) = ebind (str_items vs) (\<lambda>ss. Inr (s # ss))"
| "str_items (v # vs) = Inl OutOfModel"

definition host_set :: "pyval \<Rightarrow> error + string list" where
  "host_set hosts = ebind (py_iter hosts) str_items"

text \<open>
  The test of the loop over the header matchers:
  \<^verbatim>\<open>header.get("name") == ":authority" and "exact_match" in header\<close>.
\<close>

definition authority_exact :: "pydict \<Rightarrow> bool" where
  "authority_exact h \<longleftrightarrow>
     dict_get h ''name'' = PStr '':authority'' \<and> dict_find h ''exact_match'' \<noteq> None"

text \<open>
  The loop. The first header that passes the test ends it with the pruned set; \<open>None\<close>
  is a loop that ran to its end. The exact match is a string, as
  \<^verbatim>\<open>hostglob_matches\<close> declares its argument.
\<close>

fun prune_by_authority :: "string list \<Rightarrow> pyval list \<Rightarrow> error + string set option" where
  "prune_by_authority ret [] = Inr None"
| "prune_by_authority ret (header # headers) =
     ebind (as_dict header) (\<lambda>h.
       if authority_exact h then
         (case dict_get h ''exact_match'' of
            PStr exact \<Rightarrow>
              Inr (Some (if \<exists>glob \<in> set ret. truthy_result (hostglob_matches glob exact)
                         then {exact} else {}))
          | _ \<Rightarrow> Inl OutOfModel)
       else prune_by_authority ret headers)"

text \<open>
  \<^verbatim>\<open>ret = set(self.get('_sni', {}).get('hosts', ['*']))\<close> and
  \<^verbatim>\<open>match_headers = self.get("match", {}).get("headers", [])\<close>, then the function.
\<close>

definition base_hosts :: "v2route \<Rightarrow> error + string list" where
  "base_hosts self =
     ebind (py_get_default (dict_get_default (entries self) ''_sni'' (PDict [])) ''hosts''
              (PList [PStr ''*'']))
       host_set"

definition match_headers_of :: "v2route \<Rightarrow> error + pyval list" where
  "match_headers_of self =
     ebind (py_get_default (dict_get_default (entries self) ''match'' (PDict [])) ''headers''
              (PList []))
       py_iter"

definition host_constraints :: "v2route \<Rightarrow> bool \<Rightarrow> error + string set" where
  "host_constraints self prune_unreachable_routes =
     ebind (base_hosts self) (\<lambda>ret.
       if prune_unreachable_routes then
         ebind (match_headers_of self) (\<lambda>match_headers.
         ebind (prune_by_authority ret match_headers) (\<lambda>found.
           Inr (case found of None \<Rightarrow> set ret | Some pruned \<Rightarrow> pruned)))
       else Inr (set ret))"

section \<open>The route cache\<close>

text \<open>
  Two requests for one key must give the same object, not an equal one, so objects have
  addresses: the heap is the list of the objects allocated so far, and the address of an
  object is its position. The cache shares its store with other kinds of cached objects.
\<close>

datatype cacheable = CRoute v2route | COther "string option"

record cache_state =
  heap :: "cacheable list"
  store :: "(string \<times> nat) list"
  links :: "(pydict \<times> nat) list"

definition deref :: "cache_state \<Rightarrow> nat \<Rightarrow> cacheable option" where
  "deref s r = (if r < length (heap s) then Some (heap s ! r) else None)"

definition key_of :: "cacheable \<Rightarrow> string option" where
  "key_of c = (case c of CRoute route \<Rightarrow> cache_key route | COther k \<Rightarrow> k)"

text \<open>
  Modelled from the spec: the cache class behind \<^verbatim>\<open>config.cache\<close> is not among the
  sources. The spec's route cache is a store looked up by cache key
  (\<^verbatim>\<open>config.cache[cache_key]\<close>, \<open>None\<close> on a miss), into which an object is
  inserted under its own key (\<^verbatim>\<open>config.cache.add(route)\<close>), with a link graph that
  records an edge from a group to each artifact it produced
  (\<^verbatim>\<open>config.cache.link(irgroup, route)\<close>). An object without a key is not stored.
\<close>

definition cache_lookup :: "cache_state \<Rightarrow> string \<Rightarrow> nat option" where
  "cache_lookup s k = map_of (store s) k"

definition cache_add :: "cache_state \<Rightarrow> nat \<Rightarrow> cache_state" where
  "cache_add s r =
     (case deref s r of
        None \<Rightarrow> s
      | Some c \<Rightarrow> (case key_of c of
                     None \<Rightarrow> s
                   | Some k \<Rightarrow> s\<lparr>store := AList.update k r (store s)\<rparr>))"

definition cache_link :: "cache_state \<Rightarrow> pydict \<Rightarrow> nat \<Rightarrow> cache_state" where
  "cache_link s owner r = s\<lparr>links := links s @ [(owner, r)]\<rparr>"

text \<open>Creating an object, and assigning its \<^verbatim>\<open>cache_key\<close> attribute in place.\<close>

definition alloc :: "cache_state \<Rightarrow> cacheable \<Rightarrow> nat \<times> cache_state" where
  "alloc s c = (length (heap s), s\<lparr>heap := heap s @ [c]\<rparr>)"

definition set_cache_key :: "cache_state \<Rightarrow> nat \<Rightarrow> string \<Rightarrow> cache_state" where
  "set_cache_key s r k =
     (case deref s r of
        Some (CRoute route) \<Rightarrow> s\<lparr>heap := (heap s)[r := CRoute (route\<lparr>cache_key := Some k\<rparr>)]\<rparr>
      | _ \<Rightarrow> s)"

text \<open>
  \<^verbatim>\<open>V2Route.get_route(config, cache_key, irgroup, mapping)\<close>, with the state of the
  cache passed in and returned. The result is the address of the route. The
  \<^verbatim>\<open>assert\<close> on a hit fails on an object that is not a route.
\<close>

definition get_route ::
  "v2config \<Rightarrow> externals \<Rightarrow> cache_state \<Rightarrow> string \<Rightarrow> pydict \<Rightarrow> pydict
   \<Rightarrow> error + nat \<times> cache_state" where
  "get_route config ext s key irgroup mapping =
     (case cache_lookup s key of
        None \<Rightarrow>
          ebind (V2Route_init config ext irgroup mapping) (\<lambda>route.
            let (r, s1) = alloc s (CRoute route);
                s2 = set_cache_key s1 r key;
                s3 = cache_add s2 r;
                s4 = cache_link s3 irgroup r
            in Inr (r, s4))
      | Some r \<Rightarrow>
          (case deref s r of
             Some (CRoute route) \<Rightarrow> Inr (r, s)
           | Some (COther k) \<Rightarrow> Inl AssertionError
           | None \<Rightarrow> Inl OutOfModel))"

text \<open>
  Requests served one after another on the same cache, as the loops of
  \<^verbatim>\<open>V2Route.generate\<close> issue them; the first exception ends the pass.
\<close>

record request =
  req_key :: string
  req_group :: pydict
  req_mapping :: pydict

fun get_routes ::
  "v2config \<Rightarrow> externals \<Rightarrow> cache_state \<Rightarrow> request list \<Rightarrow> error + nat list \<times> cache_state" where
  "get_routes config ext s [] = Inr ([], s)"
| "get_routes config ext s (q # qs) =
     ebind (get_route config ext s (req_key q) (req_group q) (req_mapping q)) (\<lambda>(r, s1).
     ebind (get_routes config ext s1 qs) (\<lambda>(rs, s2). Inr (r # rs, s2)))"

text \<open>
  The cache is well formed when every stored address is allocated and the object there
  carries the key it is stored under.
\<close>

definition cache_ok :: "cache_state \<Rightarrow> bool" where
  "cache_ok s =
     (\<forall>(k, r) \<in> set (store s). r < length (heap s) \<and> key_of (heap s ! r) = Some k)"

section \<open>Sample inputs\<close>

text \<open>
  Inputs on which the statements below are exercised: a configuration with a given regex
  mode and privileged-mode flag and nothing else set, and collaborators with a constant path
  classification, serialisations that return their argument, and a translator that accepts
  every label.
\<close>

definition sample_config :: "string option \<Rightarrow> bool \<Rightarrow> v2config" where
  "sample_config mode privileged =
     \<lparr>ir = \<lparr>ambassador_module = \<lparr>regex_type = mode, regex_max_size = None,
                                    module_cors = None, module_retry_policy = None\<rparr>,
             edge_stack_allowed = privileged, ir_ratelimit = None\<rparr>\<rparr>"

definition sample_externals :: "string \<Rightarrow> externals" where
  "sample_externals path_form =
     \<lparr>envoy_route_of = (\<lambda>g. path_form), cors_as_dict = (\<lambda>c gid. c),
      retry_as_dict = (\<lambda>r. r), rate_limit_action = (\<lambda>c l. Some l)\<rparr>"

section \<open>Basic facts\<close>

lemma ebind_Inl [simp]: "ebind (Inl e) f = Inl e"
  by (simp add: ebind_def)

lemma ebind_Inr [simp]: "ebind (Inr x) f = f x"
  by (simp add: ebind_def)

lemma ebind_eq_Inr: "ebind m f = Inr y \<longleftrightarrow> (\<exists>x. m = Inr x \<and> f x = Inr y)"
  by (cases m) simp_all

lemma ebind_fails: "(\<And>x. \<exists>e. f x = Inl e) \<Longrightarrow> \<exists>e. ebind m f = Inl e"
  by (cases m) simp_all

lemma dict_find_set [simp]:
  "dict_find (dict_set d k v) k' = (if k' = k then Some v else dict_find d k')"
  by (simp add: dict_find_def dict_set_def update_conv')

lemma dict_find_update_single [simp]:
  "dict_find (dict_update d [(k, v)]) k' = (if k' = k then Some v else dict_find d k')"
  by (simp add: dict_find_def dict_update_def update_conv')

lemma py_get_None [simp]: "py_get PNone k = Inl AttributeError"
  by (simp add: py_get_def as_dict_def)

lemma lower_Unsafe: "lower ''Unsafe'' = ''unsafe''"
  by code_simp

section \<open>Properties of the host globs\<close>

text \<open>
  C6, as amended. \<^verbatim>\<open>hostglob_matches\<close> returns \<^verbatim>\<open>True\<close> exactly by these
  rules: the glob \<^verbatim>\<open>"*"\<close> matches every value; any other glob with a trailing
  \<^verbatim>\<open>"*"\<close> matches the values that start with the glob less its last character; a glob
  with a leading \<^verbatim>\<open>"*"\<close> and no trailing one matches the values that end with the
  glob less its first character; any other glob matches the identical string only. The five
  sample calls of the spec give true, true, true, true and false.
\<close>

theorem hostglob_matches_rules:
  "(hostglob_matches glob val = Some True \<longleftrightarrow>
      glob = ''*''
      \<or> (glob \<noteq> ''*'' \<and> suffix ''*'' glob \<and> prefix (butlast glob) val)
      \<or> (\<not> suffix ''*'' glob \<and> prefix ''*'' glob \<and> suffix (tl glob) val)
      \<or> (\<not> suffix ''*'' glob \<and> \<not> prefix ''*'' glob \<and> val = glob))
   \<and> hostglob_matches ''*'' ''anything'' = Some True
   \<and> hostglob_matches ''foo*'' ''foobar'' = Some True
   \<and> hostglob_matches ''*bar'' ''foobar'' = Some True
   \<and> hostglob_matches ''foo'' ''foo'' = Some True
   \<and> hostglob_matches ''foo'' ''bar'' = Some False"
proof -
  have rules: "hostglob_matches glob val = Some True \<longleftrightarrow>
      glob = ''*''
      \<or> (glob \<noteq> ''*'' \<and> suffix ''*'' glob \<and> prefix (butlast glob) val)
      \<or> (\<not> suffix ''*'' glob \<and> prefix ''*'' glob \<and> suffix (tl glob) val)
      \<or> (\<not> suffix ''*'' glob \<and> \<not> prefix ''*'' glob \<and> val = glob)"
    by (auto simp: hostglob_matches_def)
  have samples: "hostglob_matches ''*'' ''anything'' = Some True"
    "hostglob_matches ''foo*'' ''foobar'' = Some True"
    "hostglob_matches ''*bar'' ''foobar'' = Some True"
    "hostglob_matches ''foo'' ''foo'' = Some True"
    "hostglob_matches ''foo'' ''bar'' = Some False"
    by (simp_all add: hostglob_matches_def suffix_to_prefix)
  from rules samples show ?thesis by blast
qed

theorem hostglob_matches_rules_witness:
  "hostglob_matches ''*.example.com'' ''api.example.com'' = Some True
   \<and> hostglob_matches ''api.*'' ''api.example.com'' = Some True
   \<and> hostglob_matches ''api.*'' ''www.example.com'' \<noteq> Some True
   \<and> hostglob_matches ''api.example.com'' ''api.example.org'' \<noteq> Some True"
  using hostglob_matches_rules [of "''*.example.com''" "''api.example.com''"]
        hostglob_matches_rules [of "''api.*''" "''api.example.com''"]
        hostglob_matches_rules [of "''api.*''" "''www.example.com''"]
        hostglob_matches_rules [of "''api.example.com''" "''api.example.org''"]
  by (simp add: suffix_to_prefix)

text \<open>
  The claim C6 as it was stated gives the leading-wildcard rule for every glob with a leading
  \<^verbatim>\<open>"*"\<close>. It fails on a glob that also has a trailing one: \<^verbatim>\<open>"*foo*"\<close> has a
  leading \<^verbatim>\<open>"*"\<close> and the value \<^verbatim>\<open>"barfoo*"\<close> ends with \<^verbatim>\<open>"foo*"\<close>, yet
  the function does not return \<^verbatim>\<open>True\<close> but \<open>None\<close>, the trailing-wildcard branch
  having been taken.
\<close>

theorem hostglob_matches_rules_counterexample:
  "prefix ''*'' ''*foo*'' \<and> suffix (tl ''*foo*'') ''barfoo*''
   \<and> hostglob_matches ''*foo*'' ''barfoo*'' \<noteq> Some True
   \<and> hostglob_matches ''*foo*'' ''barfoo*'' = None"
  by (simp add: hostglob_matches_def suffix_to_prefix)

text \<open>
  C10. A glob of more than one character that both starts and ends with \<^verbatim>\<open>"*"\<close>
  is decided by the trailing-wildcard rule alone, its leading \<^verbatim>\<open>"*"\<close> taken as a
  literal character: the result is \<^verbatim>\<open>True\<close> exactly when the value starts with the
  glob less its last character (which itself starts with \<^verbatim>\<open>"*"\<close>), and \<open>None\<close>
  otherwise. So \<^verbatim>\<open>"*foo*"\<close> does not match \<^verbatim>\<open>"XfooY"\<close> and matches
  \<^verbatim>\<open>"*fooX"\<close>.
\<close>

theorem hostglob_matches_double_wildcard:
  assumes "1 < length glob" and "prefix ''*'' glob" and "suffix ''*'' glob"
  shows "hostglob_matches glob val = (if prefix (butlast glob) val then Some True else None)
       \<and> (hostglob_matches glob val = Some True \<longleftrightarrow> prefix (butlast glob) val)
       \<and> prefix ''*'' (butlast glob)"
proof -
  from assms(1) have ne: "glob \<noteq> ''*''" by auto
  from assms(2) obtain rest where g: "glob = CHR ''*'' # rest"
    by (auto simp: prefix_def)
  with assms(1) have "rest \<noteq> []" by auto
  with g have "prefix ''*'' (butlast glob)" by simp
  with ne assms(3) show ?thesis by (simp add: hostglob_matches_def)
qed

theorem hostglob_matches_double_wildcard_witness:
  "1 < length ''*foo*'' \<and> prefix ''*'' ''*foo*'' \<and> suffix ''*'' ''*foo*''
   \<and> hostglob_matches ''*foo*'' ''XfooY'' = None
   \<and> hostglob_matches ''*foo*'' ''*fooX'' = Some True"
proof -
  have h: "1 < length ''*foo*''" "prefix ''*'' ''*foo*''" "suffix ''*'' ''*foo*''"
    by (simp_all add: suffix_to_prefix)
  show ?thesis
    using h hostglob_matches_double_wildcard [OF h, of "''XfooY''"]
      hostglob_matches_double_wildcard [OF h, of "''*fooX''"]
    by simp
qed

section \<open>Properties of the regex safety policy\<close>

text \<open>
  C4. With no mode override and no global regex mode configured, \<^verbatim>\<open>regex_matcher\<close>
  without a safe-key override gives exactly one field, keyed \<^verbatim>\<open>safe_<key>\<close>
  (\<^verbatim>\<open>safe_regex\<close> for the default key), holding a matcher bounded by the configured
  maximal program size (200 when none is configured) and the raw pattern. When the effective
  mode is \<^verbatim>\<open>unsafe\<close> (the override, or without an override the configured mode in
  lower case) it gives the raw pattern under the plain key and no bound.
\<close>

theorem regex_matcher_modes:
  "(regex_type (ambassador_module (ir config)) = None \<longrightarrow>
      regex_matcher config pattern key None None =
        [(''safe_'' @ key,
          PDict [(''google_re2'',
                  PDict [(''max_program_size'',
                          PInt (case regex_max_size (ambassador_module (ir config)) of
                                  None \<Rightarrow> 200 | Some n \<Rightarrow> n))]),
                 (''regex'', pattern)])]
      \<and> ''safe_'' @ ''regex'' = ''safe_regex'')
   \<and> (re_type = Some ''unsafe''
        \<or> (re_type = None
            \<and> (\<exists>t. regex_type (ambassador_module (ir config)) = Some t \<and> lower t = ''unsafe''))
      \<longrightarrow> regex_matcher config pattern key safe_key re_type = [(key, pattern)])"
  by (auto simp: regex_matcher_def lower_def lower_char_def)

theorem regex_matcher_modes_witness:
  "regex_matcher
     \<lparr>ir = \<lparr>ambassador_module = \<lparr>regex_type = None, regex_max_size = None,
                                   module_cors = None, module_retry_policy = None\<rparr>,
            edge_stack_allowed = False, ir_ratelimit = None\<rparr>\<rparr>
     (PStr ''^/x'') ''regex'' None None
   = [(''safe_regex'',
       PDict [(''google_re2'', PDict [(''max_program_size'', PInt 200)]),
              (''regex'', PStr ''^/x'')])]
   \<and> regex_matcher
     \<lparr>ir = \<lparr>ambassador_module = \<lparr>regex_type = Some ''Unsafe'', regex_max_size = Some 50,
                                   module_cors = None, module_retry_policy = None\<rparr>,
            edge_stack_allowed = False, ir_ratelimit = None\<rparr>\<rparr>
     (PStr ''^/x'') ''regex'' None None
   = [(''regex'', PStr ''^/x'')]"
  using regex_matcher_modes
    [of "\<lparr>ir = \<lparr>ambassador_module = \<lparr>regex_type = None, regex_max_size = None,
                                       module_cors = None, module_retry_policy = None\<rparr>,
                edge_stack_allowed = False, ir_ratelimit = None\<rparr>\<rparr>"
        "PStr ''^/x''" "''regex''" None None]
    regex_matcher_modes
    [of "\<lparr>ir = \<lparr>ambassador_module = \<lparr>regex_type = Some ''Unsafe'', regex_max_size = Some 50,
                                       module_cors = None, module_retry_policy = None\<rparr>,
                edge_stack_allowed = False, ir_ratelimit = None\<rparr>\<rparr>"
        "PStr ''^/x''" "''regex''" None None]
  by (simp add: lower_Unsafe)

section \<open>The regex rewrite of a group that has none\<close>

lemma generate_regex_rewrite_absent:
  "dict_find mapping_group ''regex_rewrite'' = None \<Longrightarrow>
   generate_regex_rewrite config mapping_group = Inl AttributeError"
  by (simp add: generate_regex_rewrite_def dict_get_default_def dict_find_def)

lemma build_route_absent:
  assumes "dict_find irgroup ''regex_rewrite'' = None"
  shows "\<exists>e. build_route config ext irgroup mapping = Inl e"
proof (cases "route_base irgroup mapping")
  case (Inl e)
  then show ?thesis by (simp add: build_route_def)
next
  case (Inr route)
  then show ?thesis
    using assms by (simp add: build_route_def route_rewrite_def generate_regex_rewrite_absent)
qed

text \<open>
  C1. The claim is that for a group with no regex rewrite the route action is built without
  a failure, with a \<^verbatim>\<open>prefix_rewrite\<close> when the mapping has a rewrite string. The
  code does otherwise: for every group without a \<^verbatim>\<open>regex_rewrite\<close> entry,
  \<^verbatim>\<open>generate_regex_rewrite\<close> raises \<^verbatim>\<open>AttributeError\<close> (it reads the
  substitution from \<open>None\<close>), so the rewrite step raises, the route clause is never
  built, and unless the group is a redirect the constructor raises.
\<close>

theorem route_action_raises_without_regex_rewrite:
  assumes "dict_find irgroup ''regex_rewrite'' = None"
  shows "generate_regex_rewrite config irgroup = Inl AttributeError
       \<and> route_rewrite config irgroup mapping route = Inl AttributeError
       \<and> (\<exists>e. build_route config ext irgroup mapping = Inl e)
       \<and> (\<not> truthy (dict_get_default irgroup ''host_redirect'' PNone) \<longrightarrow>
            (\<exists>e. V2Route_init config ext irgroup mapping = Inl e))"
proof -
  have a: "generate_regex_rewrite config irgroup = Inl AttributeError"
    using assms by (rule generate_regex_rewrite_absent)
  have b: "\<exists>e. build_route config ext irgroup mapping = Inl e"
    using assms by (rule build_route_absent)
  have c: "\<exists>e. V2Route_init config ext irgroup mapping = Inl e"
    if "\<not> truthy (dict_get_default irgroup ''host_redirect'' PNone)"
  proof -
    from b obtain e where e: "build_route config ext irgroup mapping = Inl e" ..
    show ?thesis
      unfolding V2Route_init_def
      by (intro ebind_fails) (simp add: that e Let_def)
  qed
  show ?thesis using a b c by (simp add: route_rewrite_def)
qed

theorem route_action_raises_without_regex_rewrite_witness:
  "dict_find [(''group_id'', PStr ''g1''), (''prefix'', PStr ''/foo/'')] ''regex_rewrite'' = None
   \<and> route_rewrite (sample_config None False)
        [(''group_id'', PStr ''g1''), (''prefix'', PStr ''/foo/'')]
        [(''cluster'', PDict [(''envoy_name'', PStr ''c1'')]), (''rewrite'', PStr ''/bar/'')]
        [(''priority'', PNone), (''timeout'', PStr ''3.000s''), (''cluster'', PStr ''c1'')]
       = Inl AttributeError
   \<and> (\<exists>e. V2Route_init (sample_config None False) (sample_externals ''prefix'')
              [(''group_id'', PStr ''g1''), (''prefix'', PStr ''/foo/'')]
              [(''cluster'', PDict [(''envoy_name'', PStr ''c1'')]), (''rewrite'', PStr ''/bar/'')]
            = Inl e)"
proof -
  have h: "dict_find [(''group_id'', PStr ''g1''), (''prefix'', PStr ''/foo/'')] ''regex_rewrite''
           = None"
    by (simp add: dict_find_def)
  show ?thesis
    using h route_action_raises_without_regex_rewrite [OF h]
    by (simp add: dict_get_default_def)
qed

text \<open>
  C2. The claim is that the group with one mapping (prefix \<^verbatim>\<open>/foo/\<close>, weight 100,
  cluster \<^verbatim>\<open>c1\<close>, no timeouts, no redirect, no rewrite) compiles to a route with
  \<^verbatim>\<open>match.prefix = "/foo/"\<close>, \<^verbatim>\<open>route.timeout = "3.000s"\<close>,
  \<^verbatim>\<open>route.cluster = "c1"\<close> and no \<^verbatim>\<open>idle_timeout\<close>. On that input the
  constructor raises \<^verbatim>\<open>AttributeError\<close>, whatever the configuration and the path
  classification are, and no route comes out.
\<close>

theorem end_to_end_raises:
  "V2Route_init config ext
     [(''group_id'', PStr ''g1''), (''prefix'', PStr ''/foo/'')]
     [(''prefix'', PStr ''/foo/''), (''weight'', PInt 100),
      (''cluster'', PDict [(''envoy_name'', PStr ''c1'')])]
   = Inl AttributeError"
  by (simp add: V2Route_init_def stash_info_def build_match_def build_runtime_fraction_def
      add_path_match_def route_prefix_of_def add_header_fields_def
      build_route_def route_base_def route_rewrite_def generate_regex_rewrite_def
      generate_headers_def generate_query_parameters_def cluster_envoy_name_def
      dict_get_def dict_get_default_def dict_attr_def py_attr_def as_dict_def py_fstr_def
      py_iter_def format_timeout_def Let_def)

text \<open>
  The same group with a \<^verbatim>\<open>regex_rewrite\<close> entry that holds neither a pattern nor a
  substitution does compile, to the route that the claim describes (no CORS or retry
  default being configured on the module).
\<close>

lemma format_ms_3000: "format_ms 3000 = ''3.000s''"
  by code_simp

lemma end_to_end_with_empty_regex_rewrite:
  assumes "envoy_route_of ext
             [(''group_id'', PStr ''g1''), (''prefix'', PStr ''/foo/''),
              (''regex_rewrite'', PDict [])] = ''prefix''"
    and "module_cors (ambassador_module (ir config)) = None"
    and "module_retry_policy (ambassador_module (ir config)) = None"
  shows "V2Route_init config ext
     [(''group_id'', PStr ''g1''), (''prefix'', PStr ''/foo/''), (''regex_rewrite'', PDict [])]
     [(''prefix'', PStr ''/foo/''), (''weight'', PInt 100),
      (''cluster'', PDict [(''envoy_name'', PStr ''c1'')])]
   = Inr \<lparr>cache_key = None,
          entries =
            [(''match'',
              PDict [(''case_sensitive'', PBool True),
                     (''runtime_fraction'',
                      PDict [(''default_value'',
                              PDict [(''numerator'', PInt 100),
                                     (''denominator'', PStr ''HUNDRED'')]),
                             (''runtime_key'', PStr ''routing.traffic_shift.c1'')]),
                     (''prefix'', PStr ''/foo/'')]),
             (''route'',
              PDict [(''priority'', PNone),
                     (''timeout'', PStr ''3.000s''),
                     (''cluster'', PStr ''c1'')])]\<rparr>"
  using assms
  by (simp add: V2Route_init_def stash_info_def build_match_def build_runtime_fraction_def
      add_path_match_def route_prefix_of_def add_header_fields_def
      build_route_def route_base_def route_rewrite_def generate_regex_rewrite_def
      route_hash_policy_def generate_hash_policy_def route_cors_def route_retry_policy_def
      route_shadow_def route_rate_limits_def route_upgrade_def
      generate_headers_def generate_query_parameters_def cluster_envoy_name_def
      dict_get_def dict_get_default_def dict_attr_def dict_find_def dict_set_def
      py_attr_def py_get_def as_dict_def py_fstr_def
      py_iter_def format_timeout_def format_ms_3000 Let_def split: option.split)

section \<open>The parts of a constructed route\<close>

lemma add_header_fields_find:
  assumes "add_header_fields irgroup mapping self = Inr self'"
    and "k \<noteq> ''per_filter_config''" and "k \<noteq> ''request_headers_to_add''"
    and "k \<noteq> ''response_headers_to_add''" and "k \<noteq> ''request_headers_to_remove''"
    and "k \<noteq> ''response_headers_to_remove''"
  shows "dict_find self' k = dict_find self k"
  using assms
  by (auto simp: add_header_fields_def Let_def ebind_eq_Inr split: if_splits)

lemma V2Route_init_steps:
  assumes "V2Route_init config ext irgroup mapping = Inr route"
  shows "\<exists>self match self'.
           stash_info irgroup = Inr self
         \<and> build_match config ext irgroup mapping self = Inr match
         \<and> add_header_fields irgroup mapping (dict_set self ''match'' (PDict match)) = Inr self'
         \<and> (if truthy (dict_get_default irgroup ''host_redirect'' PNone)
              then \<exists>redirect.
                     build_redirect (dict_get_default irgroup ''host_redirect'' PNone) = Inr redirect
                   \<and> entries route = dict_set self' ''redirect'' (PDict redirect)
              else \<exists>rt. build_route config ext irgroup mapping = Inr rt
                      \<and> entries route = dict_set self' ''route'' (PDict rt))"
proof (cases "truthy (dict_get_default irgroup ''host_redirect'' PNone)")
  case True
  with assms show ?thesis
    by (simp add: V2Route_init_def Let_def ebind_eq_Inr) force
next
  case False
  with assms show ?thesis
    by (simp add: V2Route_init_def Let_def ebind_eq_Inr) force
qed

lemma V2Route_init_parts:
  assumes "V2Route_init config ext irgroup mapping = Inr route"
  shows "\<exists>self match.
           stash_info irgroup = Inr self
         \<and> build_match config ext irgroup mapping self = Inr match
         \<and> dict_find (entries route) ''match'' = Some (PDict match)
         \<and> dict_find (entries route) ''_precedence'' = dict_find self ''_precedence''
         \<and> dict_find (entries route) ''_sni'' = dict_find self ''_sni''"
proof -
  from V2Route_init_steps [OF assms] obtain self match self' where
    s: "stash_info irgroup = Inr self"
    and m: "build_match config ext irgroup mapping self = Inr match"
    and a: "add_header_fields irgroup mapping (dict_set self ''match'' (PDict match)) = Inr self'"
    and c: "if truthy (dict_get_default irgroup ''host_redirect'' PNone)
            then \<exists>redirect.
                   build_redirect (dict_get_default irgroup ''host_redirect'' PNone) = Inr redirect
                 \<and> entries route = dict_set self' ''redirect'' (PDict redirect)
            else \<exists>rt. build_route config ext irgroup mapping = Inr rt
                    \<and> entries route = dict_set self' ''route'' (PDict rt)"
    by blast
  from c have r: "(\<exists>v. entries route = dict_set self' ''redirect'' v)
          \<or> (\<exists>v. entries route = dict_set self' ''route'' v)"
    by (auto split: if_splits)
  have "dict_find self' ''match'' = Some (PDict match)"
    "dict_find self' ''_precedence'' = dict_find self ''_precedence''"
    "dict_find self' ''_sni'' = dict_find self ''_sni''"
    using add_header_fields_find [OF a] by simp_all
  with r s m show ?thesis by auto
qed

lemma regex_matcher_regex_key:
  "(\<exists>v. regex_matcher config p ''regex'' None None = [(''safe_regex'', v)])
   \<or> regex_matcher config p ''regex'' None None = [(''regex'', p)]"
  by (simp add: regex_matcher_def Let_def)

lemma add_path_match_find:
  assumes "k \<noteq> ''prefix''" and "k \<noteq> ''path''" and "k \<noteq> ''safe_regex''" and "k \<noteq> ''regex''"
  shows "dict_find (add_path_match config ext irgroup mapping self match) k = dict_find match k"
proof -
  from regex_matcher_regex_key [of config "route_prefix_of irgroup mapping"]
  have "dict_find (dict_update match
          (regex_matcher config (route_prefix_of irgroup mapping) ''regex'' None None)) k
        = dict_find match k"
    using assms by auto
  with assms show ?thesis
    by (simp add: add_path_match_def Let_def)
qed

lemma build_match_find:
  assumes "build_match config ext irgroup mapping self = Inr match"
    and "k \<noteq> ''headers''" and "k \<noteq> ''query_parameters''"
  shows "\<exists>cs rf. build_runtime_fraction mapping = Inr rf
       \<and> dict_find match k
           = dict_find (add_path_match config ext irgroup mapping self
                          [(''case_sensitive'', cs), (''runtime_fraction'', PDict rf)]) k"
  using assms
  by (auto simp: build_match_def Let_def ebind_eq_Inr)

lemma build_runtime_fraction_result:
  assumes "build_runtime_fraction mapping = Inr rf"
  shows "if mapping = [] then
           rf = [(''default_value'',
                  PDict [(''numerator'', dict_get_default mapping ''weight'' (PInt 100)),
                         (''denominator'', PStr ''HUNDRED'')])]
         else \<exists>name s. cluster_envoy_name mapping = Inr name \<and> py_fstr name = Inr s
              \<and> rf = [(''default_value'',
                  PDict [(''numerator'', dict_get_default mapping ''weight'' (PInt 100)),
                         (''denominator'', PStr ''HUNDRED'')]),
                       (''runtime_key'', PStr (''routing.traffic_shift.'' @ s))]"
  using assms
  by (auto simp: build_runtime_fraction_def Let_def ebind_eq_Inr dict_set_def)

lemma build_match_runtime_fraction:
  assumes "build_match config ext irgroup mapping self = Inr match"
  shows "\<exists>rf. build_runtime_fraction mapping = Inr rf
            \<and> dict_find match ''runtime_fraction'' = Some (PDict rf)"
proof -
  from build_match_find [OF assms, of "''runtime_fraction''"]
  obtain cs rf where rf: "build_runtime_fraction mapping = Inr rf"
    and f: "dict_find match ''runtime_fraction''
          = dict_find (add_path_match config ext irgroup mapping self
                         [(''case_sensitive'', cs), (''runtime_fraction'', PDict rf)])
              ''runtime_fraction''"
    by auto
  have "dict_find match ''runtime_fraction'' = Some (PDict rf)"
    unfolding f by (simp add: add_path_match_find) (simp add: dict_find_def)
  with rf show ?thesis by blast
qed

lemma generate_headers_succeeds:
  assumes "dict_get_default irgroup ''headers'' (PList []) = PList (map PDict hs)"
  shows "\<exists>headers. generate_headers config irgroup = Inr headers"
proof -
  have "\<exists>ys. emap (generate_header config) (map PDict hs) = Inr ys"
    by (induction hs) (auto simp: generate_header_def py_get_def as_dict_def)
  with assms show ?thesis
    by (simp add: generate_headers_def py_iter_def)
qed

lemma generate_query_parameters_succeeds:
  assumes "dict_get_default irgroup ''query_parameters'' (PList []) = PList (map PDict qs)"
  shows "\<exists>qps. generate_query_parameters config irgroup = Inr qps"
proof -
  have "\<exists>ys. emap (generate_query_parameter config) (map PDict qs) = Inr ys"
    by (induction qs) (auto simp: generate_query_parameter_def py_get_def as_dict_def)
  with assms show ?thesis
    by (simp add: generate_query_parameters_def py_iter_def)
qed

lemma build_runtime_fraction_succeeds:
  assumes "mapping = [] \<or> (\<exists>c n. dict_find mapping ''cluster'' = Some (PDict c)
                                \<and> dict_find c ''envoy_name'' = Some (PStr n))"
  shows "\<exists>rf. build_runtime_fraction mapping = Inr rf"
proof (cases "mapping = []")
  case True
  then show ?thesis by (simp add: build_runtime_fraction_def)
next
  case False
  with assms obtain c n where "dict_find mapping ''cluster'' = Some (PDict c)"
    and "dict_find c ''envoy_name'' = Some (PStr n)"
    by blast
  then have "cluster_envoy_name mapping = Inr (PStr n)"
    by (simp add: cluster_envoy_name_def dict_attr_def dict_find_def py_attr_def as_dict_def)
  with False show ?thesis
    by (simp add: build_runtime_fraction_def Let_def py_fstr_def)
qed

lemma build_match_succeeds:
  assumes "mapping = [] \<or> (\<exists>c n. dict_find mapping ''cluster'' = Some (PDict c)
                                \<and> dict_find c ''envoy_name'' = Some (PStr n))"
    and "dict_get_default irgroup ''headers'' (PList []) = PList (map PDict hs)"
    and "dict_get_default irgroup ''query_parameters'' (PList []) = PList (map PDict qs)"
  shows "\<exists>match. build_match config ext irgroup mapping self = Inr match"
proof -
  from build_runtime_fraction_succeeds [OF assms(1)] obtain rf
    where rf: "build_runtime_fraction mapping = Inr rf" ..
  from generate_headers_succeeds [OF assms(2)] obtain headers
    where h: "generate_headers config irgroup = Inr headers" ..
  from generate_query_parameters_succeeds [OF assms(3)] obtain qps
    where q: "generate_query_parameters config irgroup = Inr qps" ..
  show ?thesis
    by (simp add: build_match_def Let_def rf h q)
qed

lemmas eval_defs =
  V2Route_init_def stash_info_def build_match_def build_runtime_fraction_def
  add_path_match_def route_prefix_of_def add_header_fields_def build_redirect_def
  build_route_def route_base_def route_rewrite_def generate_regex_rewrite_def
  route_hash_policy_def generate_hash_policy_def route_cors_def route_retry_policy_def
  route_shadow_def route_rate_limits_def route_upgrade_def
  generate_headers_def generate_query_parameters_def cluster_envoy_name_def
  regex_matcher_def dict_get_def dict_get_default_def dict_attr_def dict_item_def
  dict_find_def dict_set_def dict_update_def
  py_attr_def py_get_def py_item_def as_dict_def py_fstr_def py_iter_def
  format_timeout_def sample_config_def sample_externals_def Let_def

section \<open>Properties of the match clause\<close>

text \<open>
  C8. The runtime fraction of every match clause that is built has the default value
  \<^verbatim>\<open>{numerator: weight of the mapping (100 when it has none), denominator: HUNDRED}\<close>.
  For the empty mapping that is all of it; for any other mapping it has, in addition, the
  runtime key \<^verbatim>\<open>routing.traffic_shift.<cluster name>\<close>, and nothing else. The match
  clause of a constructed route is such a match clause. A match clause is built whenever the
  mapping is empty or has a cluster with a string name, and the header and query-parameter
  specifications of the group are lists of dictionaries.
\<close>

theorem runtime_fraction_of_match:
  "(\<forall>self match. build_match config ext irgroup mapping self = Inr match \<longrightarrow>
      (\<exists>rf. dict_find match ''runtime_fraction'' = Some (PDict rf)
         \<and> (if mapping = [] then
               rf = [(''default_value'',
                      PDict [(''numerator'', dict_get_default mapping ''weight'' (PInt 100)),
                             (''denominator'', PStr ''HUNDRED'')])]
             else \<exists>name s. cluster_envoy_name mapping = Inr name \<and> py_fstr name = Inr s
               \<and> rf = [(''default_value'',
                         PDict [(''numerator'', dict_get_default mapping ''weight'' (PInt 100)),
                                (''denominator'', PStr ''HUNDRED'')]),
                        (''runtime_key'', PStr (''routing.traffic_shift.'' @ s))])))
   \<and> (\<forall>route. V2Route_init config ext irgroup mapping = Inr route \<longrightarrow>
        (\<exists>self match. build_match config ext irgroup mapping self = Inr match
           \<and> dict_find (entries route) ''match'' = Some (PDict match)))
   \<and> (\<forall>self hs qs.
        mapping = [] \<or> (\<exists>c n. dict_find mapping ''cluster'' = Some (PDict c)
                             \<and> dict_find c ''envoy_name'' = Some (PStr n)) \<longrightarrow>
        dict_get_default irgroup ''headers'' (PList []) = PList (map PDict hs) \<longrightarrow>
        dict_get_default irgroup ''query_parameters'' (PList []) = PList (map PDict qs) \<longrightarrow>
        (\<exists>match. build_match config ext irgroup mapping self = Inr match))"
proof (intro conjI allI impI)
  fix self hs qs
  assume "mapping = [] \<or> (\<exists>c n. dict_find mapping ''cluster'' = Some (PDict c)
                             \<and> dict_find c ''envoy_name'' = Some (PStr n))"
    and "dict_get_default irgroup ''headers'' (PList []) = PList (map PDict hs)"
    and "dict_get_default irgroup ''query_parameters'' (PList []) = PList (map PDict qs)"
  then show "\<exists>match. build_match config ext irgroup mapping self = Inr match"
    by (rule build_match_succeeds)
next
  fix self match
  assume "build_match config ext irgroup mapping self = Inr match"
  from build_match_runtime_fraction [OF this] obtain rf
    where rf: "build_runtime_fraction mapping = Inr rf"
      and f: "dict_find match ''runtime_fraction'' = Some (PDict rf)"
    by blast
  from build_runtime_fraction_result [OF rf] f
  show "\<exists>rf. dict_find match ''runtime_fraction'' = Some (PDict rf)
         \<and> (if mapping = [] then
               rf = [(''default_value'',
                      PDict [(''numerator'', dict_get_default mapping ''weight'' (PInt 100)),
                             (''denominator'', PStr ''HUNDRED'')])]
             else \<exists>name s. cluster_envoy_name mapping = Inr name \<and> py_fstr name = Inr s
               \<and> rf = [(''default_value'',
                         PDict [(''numerator'', dict_get_default mapping ''weight'' (PInt 100)),
                                (''denominator'', PStr ''HUNDRED'')]),
                        (''runtime_key'', PStr (''routing.traffic_shift.'' @ s))])"
    by blast
next
  fix route
  assume "V2Route_init config ext irgroup mapping = Inr route"
  from V2Route_init_parts [OF this]
  show "\<exists>self match. build_match config ext irgroup mapping self = Inr match
           \<and> dict_find (entries route) ''match'' = Some (PDict match)"
    by blast
qed

theorem runtime_fraction_of_match_witness:
  "(\<exists>route match.
      V2Route_init (sample_config None False) (sample_externals ''prefix'')
        [(''group_id'', PStr ''g1''), (''prefix'', PStr ''/foo/''),
         (''regex_rewrite'', PDict [(''pattern'', PStr ''^/foo''), (''substitution'', PStr ''/'')])]
        [(''weight'', PInt 30), (''cluster'', PDict [(''envoy_name'', PStr ''c1'')])]
      = Inr route
    \<and> dict_find (entries route) ''match'' = Some (PDict match)
    \<and> dict_find match ''runtime_fraction''
        = Some (PDict [(''default_value'',
                        PDict [(''numerator'', PInt 30), (''denominator'', PStr ''HUNDRED'')]),
                       (''runtime_key'', PStr ''routing.traffic_shift.c1'')]))
   \<and> (\<exists>route match.
      V2Route_init (sample_config None False) (sample_externals ''prefix'')
        [(''group_id'', PStr ''g2''), (''prefix'', PStr ''/old/''),
         (''host_redirect'', PDict [(''service'', PStr ''example.com'')])]
        []
      = Inr route
    \<and> dict_find (entries route) ''match'' = Some (PDict match)
    \<and> dict_find match ''runtime_fraction''
        = Some (PDict [(''default_value'',
                        PDict [(''numerator'', PInt 100), (''denominator'', PStr ''HUNDRED'')])]))"
proof (rule conjI)
  let ?c = "sample_config None False" and ?e = "sample_externals ''prefix''"
  let ?g = "[(''group_id'', PStr ''g1''), (''prefix'', PStr ''/foo/''),
         (''regex_rewrite'', PDict [(''pattern'', PStr ''^/foo''), (''substitution'', PStr ''/'')])]"
  let ?m = "[(''weight'', PInt 30), (''cluster'', PDict [(''envoy_name'', PStr ''c1'')])]"
  have "\<exists>route. V2Route_init ?c ?e ?g ?m = Inr route"
    by (simp add: eval_defs format_ms_3000)
  then obtain route where r: "V2Route_init ?c ?e ?g ?m = Inr route" ..
  from runtime_fraction_of_match [of ?c ?e ?g ?m] r obtain self match
    where b: "build_match ?c ?e ?g ?m self = Inr match"
      and f: "dict_find (entries route) ''match'' = Some (PDict match)"
    by blast
  from runtime_fraction_of_match [of ?c ?e ?g ?m] b
  have "dict_find match ''runtime_fraction''
        = Some (PDict [(''default_value'',
                        PDict [(''numerator'', PInt 30), (''denominator'', PStr ''HUNDRED'')]),
                       (''runtime_key'', PStr ''routing.traffic_shift.c1'')])"
    by (auto simp: cluster_envoy_name_def dict_attr_def py_attr_def as_dict_def py_fstr_def
        dict_get_default_def)
  with r f show "\<exists>route match. V2Route_init ?c ?e ?g ?m = Inr route
    \<and> dict_find (entries route) ''match'' = Some (PDict match)
    \<and> dict_find match ''runtime_fraction''
        = Some (PDict [(''default_value'',
                        PDict [(''numerator'', PInt 30), (''denominator'', PStr ''HUNDRED'')]),
                       (''runtime_key'', PStr ''routing.traffic_shift.c1'')])"
    by blast
next
  let ?c = "sample_config None False" and ?e = "sample_externals ''prefix''"
  let ?g = "[(''group_id'', PStr ''g2''), (''prefix'', PStr ''/old/''),
         (''host_redirect'', PDict [(''service'', PStr ''example.com'')])]"
  let ?m = "[] :: pydict"
  have "\<exists>route. V2Route_init ?c ?e ?g ?m = Inr route"
    by (simp add: eval_defs)
  then obtain route where r: "V2Route_init ?c ?e ?g ?m = Inr route" ..
  from runtime_fraction_of_match [of ?c ?e ?g ?m] r obtain self match
    where b: "build_match ?c ?e ?g ?m self = Inr match"
      and f: "dict_find (entries route) ''match'' = Some (PDict match)"
    by blast
  from runtime_fraction_of_match [of ?c ?e ?g ?m] b
  have "dict_find match ''runtime_fraction''
        = Some (PDict [(''default_value'',
                        PDict [(''numerator'', PInt 100), (''denominator'', PStr ''HUNDRED'')])])"
    by (auto simp: dict_get_default_def)
  with r f show "\<exists>route match. V2Route_init ?c ?e ?g ?m = Inr route
    \<and> dict_find (entries route) ''match'' = Some (PDict match)
    \<and> dict_find match ''runtime_fraction''
        = Some (PDict [(''default_value'',
                        PDict [(''numerator'', PInt 100), (''denominator'', PStr ''HUNDRED'')])])"
    by blast
qed

lemma add_path_match_privileged:
  assumes "envoy_route_of ext irgroup \<noteq> ''prefix''" and "envoy_route_of ext irgroup \<noteq> ''path''"
    and "edge_stack_allowed (ir config)"
    and "dict_find self ''_precedence'' = Some (PInt (- 1000000))"
  shows "add_path_match config ext irgroup mapping self match
       = dict_set match ''safe_regex''
           (PDict [(''google_re2'', PDict [(''max_program_size'', PInt 200)]),
                   (''regex'', route_prefix_of irgroup mapping)])"
  using assms
  by (simp add: add_path_match_def Let_def dict_get_default_def dict_find_def
      dict_update_def dict_set_def)

text \<open>
  C5. When the path classification of the group is neither \<^verbatim>\<open>prefix\<close> nor
  \<^verbatim>\<open>path\<close>, the privileged-mode flag is set and the precedence recorded on the route
  is \<open>-1000000\<close>, the match clause has under \<^verbatim>\<open>safe_regex\<close> the bounded matcher
  with maximal program size 200 and the effective path value as its pattern, and has no
  \<^verbatim>\<open>regex\<close> entry, whatever regex mode and size the configuration asks for.
\<close>

theorem privileged_sentinel_forces_safe_regex:
  assumes "envoy_route_of ext irgroup \<noteq> ''prefix''" and "envoy_route_of ext irgroup \<noteq> ''path''"
    and "edge_stack_allowed (ir config)"
  shows "(\<forall>self match.
            dict_find self ''_precedence'' = Some (PInt (- 1000000)) \<longrightarrow>
            build_match config ext irgroup mapping self = Inr match \<longrightarrow>
              dict_find match ''safe_regex''
                = Some (PDict [(''google_re2'', PDict [(''max_program_size'', PInt 200)]),
                               (''regex'', route_prefix_of irgroup mapping)])
            \<and> dict_find match ''regex'' = None)
       \<and> (\<forall>route.
            V2Route_init config ext irgroup mapping = Inr route \<longrightarrow>
            dict_find (entries route) ''_precedence'' = Some (PInt (- 1000000)) \<longrightarrow>
              (\<exists>self match.
                  dict_find self ''_precedence'' = Some (PInt (- 1000000))
                \<and> build_match config ext irgroup mapping self = Inr match
                \<and> dict_find (entries route) ''match'' = Some (PDict match)))"
proof (intro conjI allI impI)
  fix self match
  assume p: "dict_find self ''_precedence'' = Some (PInt (- 1000000))"
    and b: "build_match config ext irgroup mapping self = Inr match"
  note apm = add_path_match_privileged [OF assms p]
  from build_match_find [OF b, of "''safe_regex''"]
  show "dict_find match ''safe_regex''
                = Some (PDict [(''google_re2'', PDict [(''max_program_size'', PInt 200)]),
                               (''regex'', route_prefix_of irgroup mapping)])"
    by (auto simp: apm)
  from build_match_find [OF b, of "''regex''"]
  show "dict_find match ''regex'' = None"
    by (auto simp: apm) (simp add: dict_find_def)
next
  fix route
  assume "V2Route_init config ext irgroup mapping = Inr route"
    and "dict_find (entries route) ''_precedence'' = Some (PInt (- 1000000))"
  with V2Route_init_parts [of config ext irgroup mapping route]
  show "\<exists>self match.
                  dict_find self ''_precedence'' = Some (PInt (- 1000000))
                \<and> build_match config ext irgroup mapping self = Inr match
                \<and> dict_find (entries route) ''match'' = Some (PDict match)"
    by auto
qed

theorem privileged_sentinel_forces_safe_regex_witness:
  "\<exists>route match.
      V2Route_init (sample_config (Some ''unsafe'') True) (sample_externals ''regex'')
        [(''group_id'', PStr ''g3''), (''prefix'', PStr ''^/v[0-9]+/''),
         (''precedence'', PInt (- 1000000)),
         (''host_redirect'', PDict [(''service'', PStr ''example.com'')])]
        []
      = Inr route
    \<and> dict_find (entries route) ''_precedence'' = Some (PInt (- 1000000))
    \<and> dict_find (entries route) ''match'' = Some (PDict match)
    \<and> dict_find match ''safe_regex''
        = Some (PDict [(''google_re2'', PDict [(''max_program_size'', PInt 200)]),
                       (''regex'', PStr ''^/v[0-9]+/'')])
    \<and> dict_find match ''regex'' = None"
proof -
  let ?c = "sample_config (Some ''unsafe'') True" and ?e = "sample_externals ''regex''"
  let ?g = "[(''group_id'', PStr ''g3''), (''prefix'', PStr ''^/v[0-9]+/''),
         (''precedence'', PInt (- 1000000)),
         (''host_redirect'', PDict [(''service'', PStr ''example.com'')])]"
  let ?m = "[] :: pydict"
  have h: "envoy_route_of ?e ?g \<noteq> ''prefix''" "envoy_route_of ?e ?g \<noteq> ''path''"
    "edge_stack_allowed (ir ?c)"
    by (simp_all add: sample_config_def sample_externals_def)
  have "\<exists>route. V2Route_init ?c ?e ?g ?m = Inr route
      \<and> dict_find (entries route) ''_precedence'' = Some (PInt (- 1000000))"
    by (simp add: eval_defs)
  then obtain route where r: "V2Route_init ?c ?e ?g ?m = Inr route"
    and p: "dict_find (entries route) ''_precedence'' = Some (PInt (- 1000000))"
    by blast
  from privileged_sentinel_forces_safe_regex [OF h, of ?m] r p obtain self match
    where s: "dict_find self ''_precedence'' = Some (PInt (- 1000000))"
      and b: "build_match ?c ?e ?g ?m self = Inr match"
      and f: "dict_find (entries route) ''match'' = Some (PDict match)"
    by blast
  from privileged_sentinel_forces_safe_regex [OF h, of ?m] s b
  have "dict_find match ''safe_regex''
        = Some (PDict [(''google_re2'', PDict [(''max_program_size'', PInt 200)]),
                       (''regex'', PStr ''^/v[0-9]+/'')])
      \<and> dict_find match ''regex'' = None"
    by (auto simp: route_prefix_of_def dict_get_default_def dict_get_def)
  with r p f show ?thesis by blast
qed

section \<open>Properties of the hash policy\<close>

lemma py_get_PDict [simp]: "py_get (PDict d) k = Inr (dict_get d k)"
  by (simp add: py_get_def as_dict_def)

lemma py_get_eq_Inr: "py_get v k = Inr x \<longleftrightarrow> (\<exists>d. v = PDict d \<and> x = dict_get d k)"
  by (cases v) (auto simp: py_get_def as_dict_def)

lemma as_dict_eq_Inr: "as_dict v = Inr d \<longleftrightarrow> v = PDict d"
  by (cases v) (auto simp: as_dict_def)

lemma generate_hash_policy_not_hash_based:
  assumes "generate_hash_policy irgroup = Inr hp" and "hp \<noteq> []"
  shows "\<exists>lb. dict_get_default irgroup ''load_balancer'' PNone = PDict lb
            \<and> (dict_get lb ''policy'' = PStr ''ring_hash'' \<or> dict_get lb ''policy'' = PStr ''maglev'')"
  using assms
  by (auto simp: generate_hash_policy_def Let_def ebind_eq_Inr py_get_eq_Inr split: if_splits)

lemma generate_hash_policy_hash_based:
  assumes "dict_get_default irgroup ''load_balancer'' PNone = PDict lb"
    and "dict_get lb ''policy'' = PStr ''ring_hash'' \<or> dict_get lb ''policy'' = PStr ''maglev''"
  shows "generate_hash_policy irgroup =
     (if dict_get lb ''cookie'' \<noteq> PNone then
        ebind (as_dict (dict_get lb ''cookie'')) (\<lambda>c.
          Inr [(''cookie'',
                PDict ((''name'', dict_get c ''name'')
                       # (if dict_find c ''path'' \<noteq> None then [(''path'', dict_get c ''path'')] else [])
                       @ (if dict_find c ''ttl'' \<noteq> None then [(''ttl'', dict_get c ''ttl'')] else [])))])
      else if dict_get lb ''header'' \<noteq> PNone then
        Inr [(''header'', PDict [(''header_name'', dict_get lb ''header'')])]
      else if dict_get lb ''source_ip'' \<noteq> PNone then
        Inr [(''connection_properties'', PDict [(''source_ip'', dict_get lb ''source_ip'')])]
      else Inr [])"
  using assms
  by (auto simp: generate_hash_policy_def Let_def dict_set_def intro!: arg_cong [where f = "ebind _"])
lemma route_base_find_hash_policy:
  assumes "route_base irgroup mapping = Inr route"
  shows "dict_find route ''hash_policy'' = None"
proof -
  from assms obtain timeout cluster where
    r: "(let route = [(''priority'', dict_get irgroup ''priority''),
                    (''timeout'', timeout),
                    (''cluster'', cluster)];
           idle_timeout_ms = dict_get_default mapping ''idle_timeout_ms'' PNone
       in if idle_timeout_ms \<noteq> PNone then
            ebind (format_timeout idle_timeout_ms) (\<lambda>t. Inr (dict_set route ''idle_timeout'' t))
          else Inr route) = Inr route"
    unfolding route_base_def ebind_eq_Inr by blast
  show ?thesis
  proof (cases "dict_get_default mapping ''idle_timeout_ms'' PNone \<noteq> PNone")
    case True
    with r obtain t where "route = dict_set [(''priority'', dict_get irgroup ''priority''),
                    (''timeout'', timeout), (''cluster'', cluster)] ''idle_timeout'' t"
      by (auto simp: Let_def ebind_eq_Inr)
    then show ?thesis by (simp add: dict_find_def dict_set_def)
  next
    case False
    with r have "route = [(''priority'', dict_get irgroup ''priority''),
                    (''timeout'', timeout), (''cluster'', cluster)]"
      by (simp add: Let_def)
    then show ?thesis by (simp add: dict_find_def)
  qed
qed
lemma route_rewrite_find:
  assumes "route_rewrite config irgroup mapping route = Inr route'"
    and "k \<noteq> ''regex_rewrite''" and "k \<noteq> ''prefix_rewrite''"
    and "k \<noteq> ''host_rewrite''" and "k \<noteq> ''auto_host_rewrite''"
  shows "dict_find route' k = dict_find route k"
proof -
  from assms(1) obtain regex_rewrite where
    r: "route' =
      (if dict_find mapping ''auto_host_rewrite'' \<noteq> None
       then dict_set
              (if dict_find mapping ''host_rewrite'' \<noteq> None
               then dict_set
                      (if regex_rewrite \<noteq> [] then
                         dict_set route ''regex_rewrite'' (PDict regex_rewrite)
                       else if truthy (dict_get_default mapping ''rewrite'' PNone) then
                         dict_set route ''prefix_rewrite'' (dict_get mapping ''rewrite'')
                       else route)
                      ''host_rewrite'' (dict_get mapping ''host_rewrite'')
               else (if regex_rewrite \<noteq> [] then
                       dict_set route ''regex_rewrite'' (PDict regex_rewrite)
                     else if truthy (dict_get_default mapping ''rewrite'' PNone) then
                       dict_set route ''prefix_rewrite'' (dict_get mapping ''rewrite'')
                     else route))
              ''auto_host_rewrite'' (dict_get mapping ''auto_host_rewrite'')
       else (if dict_find mapping ''host_rewrite'' \<noteq> None
               then dict_set
                      (if regex_rewrite \<noteq> [] then
                         dict_set route ''regex_rewrite'' (PDict regex_rewrite)
                       else if truthy (dict_get_default mapping ''rewrite'' PNone) then
                         dict_set route ''prefix_rewrite'' (dict_get mapping ''rewrite'')
                       else route)
                      ''host_rewrite'' (dict_get mapping ''host_rewrite'')
               else (if regex_rewrite \<noteq> [] then
                       dict_set route ''regex_rewrite'' (PDict regex_rewrite)
                     else if truthy (dict_get_default mapping ''rewrite'' PNone) then
                       dict_set route ''prefix_rewrite'' (dict_get mapping ''rewrite'')
                     else route)))"
    unfolding route_rewrite_def ebind_eq_Inr Let_def by auto
  show ?thesis
    unfolding r using assms(2-5) by simp
qed
lemma route_hash_policy_find:
  assumes "route_hash_policy irgroup route = Inr route'"
  shows "\<exists>hp. generate_hash_policy irgroup = Inr hp
            \<and> dict_find route' ''hash_policy''
                = (if hp \<noteq> [] then Some (PList [PDict hp]) else dict_find route ''hash_policy'')"
proof -
  from assms obtain hp where hp: "generate_hash_policy irgroup = Inr hp"
    and r: "route' = (if hp \<noteq> [] then dict_set route ''hash_policy'' (PList [PDict hp]) else route)"
    unfolding route_hash_policy_def ebind_eq_Inr by auto
  from r have "dict_find route' ''hash_policy''
                = (if hp \<noteq> [] then Some (PList [PDict hp]) else dict_find route ''hash_policy'')"
    by simp
  with hp show ?thesis by blast
qed
lemma route_cors_find:
  "route_cors config ext irgroup route = Inr route' \<Longrightarrow> k \<noteq> ''cors'' \<Longrightarrow>
   dict_find route' k = dict_find route k"
  by (auto simp: route_cors_def Let_def ebind_eq_Inr split: if_splits)
lemma route_retry_policy_find:
  "k \<noteq> ''retry_policy'' \<Longrightarrow>
   dict_find (route_retry_policy config ext irgroup route) k = dict_find route k"
  by (simp add: route_retry_policy_def Let_def)
lemma route_shadow_find:
  "route_shadow irgroup route = Inr route' \<Longrightarrow> k \<noteq> ''request_mirror_policy'' \<Longrightarrow>
   dict_find route' k = dict_find route k"
  by (auto simp: route_shadow_def Let_def ebind_eq_Inr split: if_splits)
lemma route_rate_limits_find:
  "route_rate_limits config ext irgroup route = Inr route' \<Longrightarrow> k \<noteq> ''rate_limits'' \<Longrightarrow>
   dict_find route' k = dict_find route k"
  by (auto simp: route_rate_limits_def Let_def ebind_eq_Inr split: if_splits option.splits)
lemma route_upgrade_find:
  "route_upgrade irgroup route = Inr route' \<Longrightarrow> k \<noteq> ''upgrade_configs'' \<Longrightarrow>
   dict_find route' k = dict_find route k"
  by (auto simp: route_upgrade_def ebind_eq_Inr split: if_splits)
lemma build_route_hash_policy:
  assumes "build_route config ext irgroup mapping = Inr route"
  shows "\<exists>hp. generate_hash_policy irgroup = Inr hp
            \<and> dict_find route ''hash_policy''
                = (if hp = [] then None else Some (PList [PDict hp]))"
proof -
  from assms obtain r1 r2 r3 r4 r5 r6 where
    s1: "route_base irgroup mapping = Inr r1"
    and s2: "route_rewrite config irgroup mapping r1 = Inr r2"
    and s3: "route_hash_policy irgroup r2 = Inr r3"
    and s4: "route_cors config ext irgroup r3 = Inr r4"
    and s5: "route_shadow irgroup (route_retry_policy config ext irgroup r4) = Inr r5"
    and s6: "route_rate_limits config ext irgroup r5 = Inr r6"
    and s7: "route_upgrade irgroup r6 = Inr route"
    unfolding build_route_def ebind_eq_Inr by blast
  have "dict_find r2 ''hash_policy'' = None"
    using route_rewrite_find [OF s2, of "''hash_policy''"] route_base_find_hash_policy [OF s1]
    by simp
  with route_hash_policy_find [OF s3] obtain hp where
    hp: "generate_hash_policy irgroup = Inr hp"
    and f: "dict_find r3 ''hash_policy'' = (if hp = [] then None else Some (PList [PDict hp]))"
    by auto
  have "dict_find route ''hash_policy'' = dict_find r3 ''hash_policy''"
    using route_upgrade_find [OF s7, of "''hash_policy''"]
      route_rate_limits_find [OF s6, of "''hash_policy''"]
      route_shadow_find [OF s5, of "''hash_policy''"]
      route_retry_policy_find [of "''hash_policy''" config ext irgroup r4]
      route_cors_find [OF s4, of "''hash_policy''"]
    by simp
  with hp f show ?thesis by auto
qed
lemma V2Route_init_route:
  assumes "V2Route_init config ext irgroup mapping = Inr rt"
    and "\<not> truthy (dict_get_default irgroup ''host_redirect'' PNone)"
  shows "\<exists>route. build_route config ext irgroup mapping = Inr route
              \<and> dict_find (entries rt) ''route'' = Some (PDict route)"
  using V2Route_init_steps [OF assms(1)] assms(2) by auto
lemma generate_hash_policy_no_load_balancer:
  "dict_get_default irgroup ''load_balancer'' PNone = PNone \<Longrightarrow>
   generate_hash_policy irgroup = Inr []"
  by (simp add: generate_hash_policy_def)

lemma generate_hash_policy_other_policy:
  assumes "dict_get_default irgroup ''load_balancer'' PNone = PDict lb"
    and "dict_get lb ''policy'' \<noteq> PStr ''ring_hash''"
    and "dict_get lb ''policy'' \<noteq> PStr ''maglev''"
  shows "generate_hash_policy irgroup = Inr []"
  using assms by (simp add: generate_hash_policy_def)

lemma route_hash_policy_result:
  "generate_hash_policy irgroup = Inr hp \<Longrightarrow>
   route_hash_policy irgroup route
     = Inr (if hp \<noteq> [] then dict_set route ''hash_policy'' (PList [PDict hp]) else route)"
  by (simp add: route_hash_policy_def)

text \<open>
  C9. \<^verbatim>\<open>generate_hash_policy\<close> returns the empty policy for a group without a load
  balancer and for a load balancer whose policy is neither \<^verbatim>\<open>ring_hash\<close> nor
  \<^verbatim>\<open>maglev\<close>. For one of these two policies it returns the single cookie entry (the
  name, the path and the ttl when the cookie has them) when a cookie is configured, else the
  single header entry when a header is, else the single source-IP entry when that is, else
  the empty policy. So a policy that is not empty comes from a hash-based load balancer
  only. The route clause gets a \<^verbatim>\<open>hash_policy\<close> field exactly when the policy is not
  empty, and the field is then the one-element list of it; the route clause of a constructed
  route that is not a redirect is such a route clause.
\<close>

theorem hash_policy_of_route:
  "(dict_get_default irgroup ''load_balancer'' PNone = PNone \<longrightarrow>
      generate_hash_policy irgroup = Inr [])
   \<and> (\<forall>lb. dict_get_default irgroup ''load_balancer'' PNone = PDict lb \<longrightarrow>
        (dict_get lb ''policy'' \<noteq> PStr ''ring_hash''
           \<and> dict_get lb ''policy'' \<noteq> PStr ''maglev'' \<longrightarrow>
         generate_hash_policy irgroup = Inr [])
      \<and> (dict_get lb ''policy'' = PStr ''ring_hash''
           \<or> dict_get lb ''policy'' = PStr ''maglev'' \<longrightarrow>
            (\<forall>c. dict_get lb ''cookie'' = PDict c \<longrightarrow>
               generate_hash_policy irgroup
                 = Inr [(''cookie'',
                         PDict ((''name'', dict_get c ''name'')
                           # (if dict_find c ''path'' \<noteq> None
                              then [(''path'', dict_get c ''path'')] else [])
                           @ (if dict_find c ''ttl'' \<noteq> None
                              then [(''ttl'', dict_get c ''ttl'')] else [])))])
          \<and> (dict_get lb ''cookie'' = PNone \<longrightarrow> dict_get lb ''header'' \<noteq> PNone \<longrightarrow>
               generate_hash_policy irgroup
                 = Inr [(''header'', PDict [(''header_name'', dict_get lb ''header'')])])
          \<and> (dict_get lb ''cookie'' = PNone \<longrightarrow> dict_get lb ''header'' = PNone \<longrightarrow>
               dict_get lb ''source_ip'' \<noteq> PNone \<longrightarrow>
               generate_hash_policy irgroup
                 = Inr [(''connection_properties'',
                         PDict [(''source_ip'', dict_get lb ''source_ip'')])])
          \<and> (dict_get lb ''cookie'' = PNone \<longrightarrow> dict_get lb ''header'' = PNone \<longrightarrow>
               dict_get lb ''source_ip'' = PNone \<longrightarrow>
               generate_hash_policy irgroup = Inr [])))
   \<and> (\<forall>hp. generate_hash_policy irgroup = Inr hp \<longrightarrow> hp \<noteq> [] \<longrightarrow>
         (\<exists>lb. dict_get_default irgroup ''load_balancer'' PNone = PDict lb
             \<and> (dict_get lb ''policy'' = PStr ''ring_hash''
                  \<or> dict_get lb ''policy'' = PStr ''maglev'')))
   \<and> (\<forall>hp route. generate_hash_policy irgroup = Inr hp \<longrightarrow>
         route_hash_policy irgroup route
           = Inr (if hp \<noteq> [] then dict_set route ''hash_policy'' (PList [PDict hp])
                  else route))
   \<and> (\<forall>route. build_route config ext irgroup mapping = Inr route \<longrightarrow>
        (\<exists>hp. generate_hash_policy irgroup = Inr hp
           \<and> dict_find route ''hash_policy''
               = (if hp = [] then None else Some (PList [PDict hp]))))
   \<and> (\<forall>rt. V2Route_init config ext irgroup mapping = Inr rt \<longrightarrow>
        \<not> truthy (dict_get_default irgroup ''host_redirect'' PNone) \<longrightarrow>
        (\<exists>route. build_route config ext irgroup mapping = Inr route
           \<and> dict_find (entries rt) ''route'' = Some (PDict route)))"
proof -
  have none: "generate_hash_policy irgroup = Inr []"
    if "dict_get_default irgroup ''load_balancer'' PNone = PNone"
    using that by (rule generate_hash_policy_no_load_balancer)
  have other: "generate_hash_policy irgroup = Inr []"
    if "dict_get_default irgroup ''load_balancer'' PNone = PDict lb"
      and "dict_get lb ''policy'' \<noteq> PStr ''ring_hash'' \<and> dict_get lb ''policy'' \<noteq> PStr ''maglev''"
    for lb
    using that generate_hash_policy_other_policy [of irgroup lb] by blast
  have cookie: "generate_hash_policy irgroup
                 = Inr [(''cookie'',
                         PDict ((''name'', dict_get c ''name'')
                           # (if dict_find c ''path'' \<noteq> None
                              then [(''path'', dict_get c ''path'')] else [])
                           @ (if dict_find c ''ttl'' \<noteq> None
                              then [(''ttl'', dict_get c ''ttl'')] else [])))]"
    if "dict_get_default irgroup ''load_balancer'' PNone = PDict lb"
      and "dict_get lb ''policy'' = PStr ''ring_hash'' \<or> dict_get lb ''policy'' = PStr ''maglev''"
      and "dict_get lb ''cookie'' = PDict c"
    for lb c
    using that by (simp add: generate_hash_policy_hash_based as_dict_def)
  have header: "generate_hash_policy irgroup
                 = Inr [(''header'', PDict [(''header_name'', dict_get lb ''header'')])]"
    if "dict_get_default irgroup ''load_balancer'' PNone = PDict lb"
      and "dict_get lb ''policy'' = PStr ''ring_hash'' \<or> dict_get lb ''policy'' = PStr ''maglev''"
      and "dict_get lb ''cookie'' = PNone" and "dict_get lb ''header'' \<noteq> PNone"
    for lb
    using that by (simp add: generate_hash_policy_hash_based)
  have source_ip: "generate_hash_policy irgroup
                 = Inr [(''connection_properties'',
                         PDict [(''source_ip'', dict_get lb ''source_ip'')])]"
    if "dict_get_default irgroup ''load_balancer'' PNone = PDict lb"
      and "dict_get lb ''policy'' = PStr ''ring_hash'' \<or> dict_get lb ''policy'' = PStr ''maglev''"
      and "dict_get lb ''cookie'' = PNone" and "dict_get lb ''header'' = PNone"
      and "dict_get lb ''source_ip'' \<noteq> PNone"
    for lb
    using that by (simp add: generate_hash_policy_hash_based)
  have no_policy: "generate_hash_policy irgroup = Inr []"
    if "dict_get_default irgroup ''load_balancer'' PNone = PDict lb"
      and "dict_get lb ''policy'' = PStr ''ring_hash'' \<or> dict_get lb ''policy'' = PStr ''maglev''"
      and "dict_get lb ''cookie'' = PNone" and "dict_get lb ''header'' = PNone"
      and "dict_get lb ''source_ip'' = PNone"
    for lb
    using that by (simp add: generate_hash_policy_hash_based)
  have only: "\<exists>lb. dict_get_default irgroup ''load_balancer'' PNone = PDict lb
             \<and> (dict_get lb ''policy'' = PStr ''ring_hash''
                  \<or> dict_get lb ''policy'' = PStr ''maglev'')"
    if "generate_hash_policy irgroup = Inr hp" and "hp \<noteq> []" for hp
    using that by (rule generate_hash_policy_not_hash_based)
  have field: "route_hash_policy irgroup route
           = Inr (if hp \<noteq> [] then dict_set route ''hash_policy'' (PList [PDict hp])
                  else route)"
    if "generate_hash_policy irgroup = Inr hp" for hp route
    using that by (rule route_hash_policy_result)
  have clause: "\<exists>hp. generate_hash_policy irgroup = Inr hp
           \<and> dict_find route ''hash_policy''
               = (if hp = [] then None else Some (PList [PDict hp]))"
    if "build_route config ext irgroup mapping = Inr route" for route
    using that by (rule build_route_hash_policy)
  have built: "\<exists>route. build_route config ext irgroup mapping = Inr route
           \<and> dict_find (entries rt) ''route'' = Some (PDict route)"
    if "V2Route_init config ext irgroup mapping = Inr rt"
      and "\<not> truthy (dict_get_default irgroup ''host_redirect'' PNone)" for rt
    using that by (rule V2Route_init_route)
  show ?thesis
    apply (intro conjI allI impI)
    subgoal by (rule none)
    subgoal by (rule other) assumption+
    subgoal by (rule cookie)
    subgoal by (rule header)
    subgoal by (rule source_ip)
    subgoal by (rule no_policy)
    subgoal by (rule only)
    subgoal by (rule field)
    subgoal by (rule clause)
    subgoal by (rule built)
    done
qed

theorem hash_policy_of_route_witness:
  "(\<exists>rt route.
      V2Route_init (sample_config None False) (sample_externals ''prefix'')
        [(''group_id'', PStr ''g1''), (''prefix'', PStr ''/foo/''),
         (''regex_rewrite'', PDict [(''pattern'', PStr ''^/foo''), (''substitution'', PStr ''/'')]),
         (''load_balancer'',
          PDict [(''policy'', PStr ''maglev''),
                 (''cookie'', PDict [(''name'', PStr ''sticky''), (''ttl'', PStr ''60s'')]),
                 (''header'', PStr ''x-user'')])]
        [(''cluster'', PDict [(''envoy_name'', PStr ''c1'')])]
      = Inr rt
    \<and> dict_find (entries rt) ''route'' = Some (PDict route)
    \<and> dict_find route ''hash_policy''
        = Some (PList [PDict [(''cookie'',
                               PDict [(''name'', PStr ''sticky''), (''ttl'', PStr ''60s'')])]]))
   \<and> (\<exists>rt route.
      V2Route_init (sample_config None False) (sample_externals ''prefix'')
        [(''group_id'', PStr ''g1''), (''prefix'', PStr ''/foo/''),
         (''regex_rewrite'', PDict [(''pattern'', PStr ''^/foo''), (''substitution'', PStr ''/'')]),
         (''load_balancer'',
          PDict [(''policy'', PStr ''ring_hash''), (''header'', PStr ''x-user''),
                 (''source_ip'', PBool True)])]
        [(''cluster'', PDict [(''envoy_name'', PStr ''c1'')])]
      = Inr rt
    \<and> dict_find (entries rt) ''route'' = Some (PDict route)
    \<and> dict_find route ''hash_policy''
        = Some (PList [PDict [(''header'', PDict [(''header_name'', PStr ''x-user'')])]]))
   \<and> (\<exists>rt route.
      V2Route_init (sample_config None False) (sample_externals ''prefix'')
        [(''group_id'', PStr ''g1''), (''prefix'', PStr ''/foo/''),
         (''regex_rewrite'', PDict [(''pattern'', PStr ''^/foo''), (''substitution'', PStr ''/'')]),
         (''load_balancer'',
          PDict [(''policy'', PStr ''maglev''), (''source_ip'', PBool True)])]
        [(''cluster'', PDict [(''envoy_name'', PStr ''c1'')])]
      = Inr rt
    \<and> dict_find (entries rt) ''route'' = Some (PDict route)
    \<and> dict_find route ''hash_policy''
        = Some (PList [PDict [(''connection_properties'',
                               PDict [(''source_ip'', PBool True)])]]))
   \<and> (\<exists>rt route.
      V2Route_init (sample_config None False) (sample_externals ''prefix'')
        [(''group_id'', PStr ''g1''), (''prefix'', PStr ''/foo/''),
         (''regex_rewrite'', PDict [(''pattern'', PStr ''^/foo''), (''substitution'', PStr ''/'')]),
         (''load_balancer'',
          PDict [(''policy'', PStr ''round_robin''), (''header'', PStr ''x-user'')])]
        [(''cluster'', PDict [(''envoy_name'', PStr ''c1'')])]
      = Inr rt
    \<and> dict_find (entries rt) ''route'' = Some (PDict route)
    \<and> dict_find route ''hash_policy'' = None)"
proof -
  let ?c = "sample_config None False" and ?e = "sample_externals ''prefix''"
  let ?m = "[(''cluster'', PDict [(''envoy_name'', PStr ''c1'')])]"
  let ?rr = "PDict [(''pattern'', PStr ''^/foo''), (''substitution'', PStr ''/'')]"
  let ?G = "\<lambda>lb. [(''group_id'', PStr ''g1''), (''prefix'', PStr ''/foo/''),
                   (''regex_rewrite'', ?rr), (''load_balancer'', PDict lb)]"
  note lb_rules = hash_policy_of_route [THEN conjunct2, THEN conjunct1, rule_format]
  note other = lb_rules [THEN conjunct1, rule_format]
  note hashed = lb_rules [THEN conjunct2, rule_format]
  note cookie = hashed [THEN conjunct1, rule_format]
  note header = hashed [THEN conjunct2, THEN conjunct1, rule_format]
  note source_ip = hashed [THEN conjunct2, THEN conjunct2, THEN conjunct1, rule_format]
  note clause = hash_policy_of_route
    [THEN conjunct2, THEN conjunct2, THEN conjunct2, THEN conjunct2, THEN conjunct1, rule_format]
  note built = hash_policy_of_route
    [THEN conjunct2, THEN conjunct2, THEN conjunct2, THEN conjunct2, THEN conjunct2, rule_format]
  have step: "\<exists>rt route. V2Route_init ?c ?e (?G lb) ?m = Inr rt
      \<and> dict_find (entries rt) ''route'' = Some (PDict route)
      \<and> dict_find route ''hash_policy'' = (if hp = [] then None else Some (PList [PDict hp]))"
    if hp: "generate_hash_policy (?G lb) = Inr hp"
      and ex: "\<exists>rt. V2Route_init ?c ?e (?G lb) ?m = Inr rt" for lb hp
  proof -
    from ex obtain rt where r: "V2Route_init ?c ?e (?G lb) ?m = Inr rt" ..
    have nr: "\<not> truthy (dict_get_default (?G lb) ''host_redirect'' PNone)"
      by (simp add: dict_get_default_def)
    from built [OF r nr] obtain route
      where b: "build_route ?c ?e (?G lb) ?m = Inr route"
        and f: "dict_find (entries rt) ''route'' = Some (PDict route)"
      by (elim exE conjE)
    from clause [OF b] obtain hp'
      where h': "generate_hash_policy (?G lb) = Inr hp'"
        and d: "dict_find route ''hash_policy''
               = (if hp' = [] then None else Some (PList [PDict hp']))"
      by (elim exE conjE)
    from hp h' have "hp' = hp" by simp
    with d have "dict_find route ''hash_policy''
               = (if hp = [] then None else Some (PList [PDict hp]))"
      by simp
    with r f show ?thesis by (intro exI conjI)
  qed
  have lbg: "dict_get_default (?G lb) ''load_balancer'' PNone = PDict lb" for lb
    by (simp add: dict_get_default_def)
  let ?ck = "[(''name'', PStr ''sticky''), (''ttl'', PStr ''60s'')]"
  let ?lb1 = "[(''policy'', PStr ''maglev''), (''cookie'', PDict ?ck),
               (''header'', PStr ''x-user'')]"
  let ?lb2 = "[(''policy'', PStr ''ring_hash''), (''header'', PStr ''x-user''),
               (''source_ip'', PBool True)]"
  let ?lb3 = "[(''policy'', PStr ''maglev''), (''source_ip'', PBool True)]"
  let ?lb4 = "[(''policy'', PStr ''round_robin''), (''header'', PStr ''x-user'')]"
  have h1: "generate_hash_policy (?G ?lb1) = Inr [(''cookie'', PDict ?ck)]"
  proof -
    have p: "dict_get ?lb1 ''policy'' = PStr ''ring_hash'' \<or> dict_get ?lb1 ''policy'' = PStr ''maglev''"
      and c: "dict_get ?lb1 ''cookie'' = PDict ?ck"
      by (simp_all add: dict_get_def)
    from cookie [OF lbg p c] show ?thesis
      by (simp add: dict_get_def dict_find_def)
  qed
  have h2: "generate_hash_policy (?G ?lb2)
          = Inr [(''header'', PDict [(''header_name'', PStr ''x-user'')])]"
  proof -
    have p: "dict_get ?lb2 ''policy'' = PStr ''ring_hash'' \<or> dict_get ?lb2 ''policy'' = PStr ''maglev''"
      and c: "dict_get ?lb2 ''cookie'' = PNone" and h: "dict_get ?lb2 ''header'' \<noteq> PNone"
      by (simp_all add: dict_get_def)
    from header [OF lbg p c h] show ?thesis
      by (simp add: dict_get_def)
  qed
  have h3: "generate_hash_policy (?G ?lb3)
          = Inr [(''connection_properties'', PDict [(''source_ip'', PBool True)])]"
  proof -
    have p: "dict_get ?lb3 ''policy'' = PStr ''ring_hash'' \<or> dict_get ?lb3 ''policy'' = PStr ''maglev''"
      and c: "dict_get ?lb3 ''cookie'' = PNone" and h: "dict_get ?lb3 ''header'' = PNone"
      and i: "dict_get ?lb3 ''source_ip'' \<noteq> PNone"
      by (simp_all add: dict_get_def)
    from source_ip [OF lbg p c h i] show ?thesis
      by (simp add: dict_get_def)
  qed
  have h4: "generate_hash_policy (?G ?lb4) = Inr []"
  proof -
    have p: "dict_get ?lb4 ''policy'' \<noteq> PStr ''ring_hash''
           \<and> dict_get ?lb4 ''policy'' \<noteq> PStr ''maglev''"
      by (simp add: dict_get_def)
    from other [OF lbg p] show ?thesis .
  qed
  have e1: "\<exists>rt. V2Route_init ?c ?e (?G ?lb1) ?m = Inr rt"
    by (simp add: eval_defs format_ms_3000)
  have e2: "\<exists>rt. V2Route_init ?c ?e (?G ?lb2) ?m = Inr rt"
    by (simp add: eval_defs format_ms_3000)
  have e3: "\<exists>rt. V2Route_init ?c ?e (?G ?lb3) ?m = Inr rt"
    by (simp add: eval_defs format_ms_3000)
  have e4: "\<exists>rt. V2Route_init ?c ?e (?G ?lb4) ?m = Inr rt"
    by (simp add: eval_defs format_ms_3000)
  from step [OF h1 e1] step [OF h2 e2] step [OF h3 e3] step [OF h4 e4]
  show ?thesis by simp
qed

section \<open>Properties of the host constraints\<close>

lemma str_items_map_PStr [simp]: "str_items (map PStr hs) = Inr hs"
  by (induction hs) simp_all

lemma prune_by_authority_none:
  "\<forall>d \<in> set ds. \<not> authority_exact d \<Longrightarrow> prune_by_authority ret (map PDict ds) = Inr None"
  by (induction ds) (simp_all add: as_dict_def)

lemma prune_by_authority_first:
  assumes "\<forall>p \<in> set pre. \<not> authority_exact p" and "authority_exact h"
    and "dict_get h ''exact_match'' = PStr e"
  shows "prune_by_authority ret (map PDict pre @ PDict h # post)
       = Inr (Some (if \<exists>glob \<in> set ret. hostglob_matches glob e = Some True
                    then {e} else {}))"
  using assms
  by (induction pre) (simp_all add: as_dict_def truthy_result_def)

text \<open>
  C7. The base set of \<^verbatim>\<open>host_constraints\<close> is \<^verbatim>\<open>{"*"}\<close> for a route without
  an SNI annotation and the recorded SNI hosts for a route with one. Without pruning the
  result is the base set. With pruning, when the first header matcher that is named
  \<^verbatim>\<open>:authority\<close> and has an exact match has the literal \<open>e\<close>, the result is
  \<open>{e}\<close> if \<open>e\<close> matches some glob of the base set and the empty set if it matches
  none; when no header matcher is named \<^verbatim>\<open>:authority\<close> with an exact match, the
  result is the base set.
\<close>

theorem host_constraints_cases:
  "(dict_find (entries self) ''_sni'' = None \<longrightarrow> base_hosts self = Inr [''*''])
   \<and> (\<forall>sni hosts. dict_find (entries self) ''_sni'' = Some (PDict sni) \<longrightarrow>
          dict_find sni ''hosts'' = Some (PList (map PStr hosts)) \<longrightarrow>
          base_hosts self = Inr hosts)
   \<and> (\<forall>ret. base_hosts self = Inr ret \<longrightarrow>
          host_constraints self False = Inr (set ret)
        \<and> (\<forall>pre h e post.
              match_headers_of self = Inr (map PDict pre @ PDict h # post) \<longrightarrow>
              (\<forall>p \<in> set pre. \<not> authority_exact p) \<longrightarrow>
              authority_exact h \<longrightarrow> dict_get h ''exact_match'' = PStr e \<longrightarrow>
              host_constraints self True
                = Inr (if \<exists>glob \<in> set ret. hostglob_matches glob e = Some True
                       then {e} else {}))
        \<and> (\<forall>ds. match_headers_of self = Inr (map PDict ds) \<longrightarrow>
              (\<forall>d \<in> set ds. \<not> authority_exact d) \<longrightarrow>
              host_constraints self True = Inr (set ret)))"
proof (intro conjI allI impI)
  assume "dict_find (entries self) ''_sni'' = None"
  then show "base_hosts self = Inr [''*'']"
    by (simp add: base_hosts_def dict_get_default_def dict_find_def py_get_default_def
        as_dict_def host_set_def py_iter_def)
next
  fix sni hosts
  assume "dict_find (entries self) ''_sni'' = Some (PDict sni)"
    and "dict_find sni ''hosts'' = Some (PList (map PStr hosts))"
  then show "base_hosts self = Inr hosts"
    by (simp add: base_hosts_def dict_get_default_def dict_find_def py_get_default_def
        as_dict_def host_set_def py_iter_def)
next
  fix ret
  assume "base_hosts self = Inr ret"
  then show "host_constraints self False = Inr (set ret)"
    by (simp add: host_constraints_def)
next
  fix ret pre h e post
  assume "base_hosts self = Inr ret"
    and "match_headers_of self = Inr (map PDict pre @ PDict h # post)"
    and "\<forall>p \<in> set pre. \<not> authority_exact p" and "authority_exact h"
    and "dict_get h ''exact_match'' = PStr e"
  then show "host_constraints self True
                = Inr (if \<exists>glob \<in> set ret. hostglob_matches glob e = Some True
                       then {e} else {})"
    by (simp add: host_constraints_def prune_by_authority_first)
next
  fix ret ds
  assume "base_hosts self = Inr ret" and "match_headers_of self = Inr (map PDict ds)"
    and "\<forall>d \<in> set ds. \<not> authority_exact d"
  then show "host_constraints self True = Inr (set ret)"
    by (simp add: host_constraints_def prune_by_authority_none)
qed

theorem host_constraints_cases_witness:
  "host_constraints
     \<lparr>cache_key = None,
        entries = [(''_sni'', PDict [(''hosts'', PList [PStr ''api.example.com'']),
                                     (''secret_info'', PNone)]),
                   (''match'',
                    PDict [(''prefix'', PStr ''/''),
                           (''headers'',
                            PList [PDict [(''name'', PStr ''x-user''),
                                          (''exact_match'', PStr ''u'')],
                                   PDict [(''name'', PStr '':authority''),
                                          (''exact_match'', PStr ''api.example.com'')]])])]\<rparr>
     True = Inr {''api.example.com''}
   \<and> host_constraints
     \<lparr>cache_key = None,
        entries = [(''_sni'', PDict [(''hosts'', PList [PStr ''api.example.com'']),
                                     (''secret_info'', PNone)]),
                   (''match'',
                    PDict [(''prefix'', PStr ''/''),
                           (''headers'',
                            PList [PDict [(''name'', PStr '':authority''),
                                          (''exact_match'', PStr ''other.example.com'')]])])]\<rparr>
     True = Inr {}
   \<and> host_constraints
     \<lparr>cache_key = None,
        entries = [(''_sni'', PDict [(''hosts'', PList [PStr ''api.example.com'']),
                                     (''secret_info'', PNone)]),
                   (''match'',
                    PDict [(''prefix'', PStr ''/''),
                           (''headers'',
                            PList [PDict [(''name'', PStr '':authority''),
                                          (''exact_match'', PStr ''other.example.com'')]])])]\<rparr>
     False = Inr {''api.example.com''}
   \<and> host_constraints
     \<lparr>cache_key = None,
        entries = [(''match'',
                    PDict [(''prefix'', PStr ''/''),
                           (''headers'',
                            PList [PDict [(''name'', PStr ''x-user''),
                                          (''exact_match'', PStr ''u'')]])])]\<rparr>
     True = Inr {''*''}"
proof -
  let ?sni = "[(''hosts'', PList [PStr ''api.example.com'']), (''secret_info'', PNone)]"
  let ?a = "\<lparr>cache_key = None,
        entries = [(''_sni'', PDict ?sni),
                   (''match'',
                    PDict [(''prefix'', PStr ''/''),
                           (''headers'',
                            PList [PDict [(''name'', PStr ''x-user''),
                                          (''exact_match'', PStr ''u'')],
                                   PDict [(''name'', PStr '':authority''),
                                          (''exact_match'', PStr ''api.example.com'')]])])]\<rparr>"
  let ?b = "\<lparr>cache_key = None,
        entries = [(''_sni'', PDict ?sni),
                   (''match'',
                    PDict [(''prefix'', PStr ''/''),
                           (''headers'',
                            PList [PDict [(''name'', PStr '':authority''),
                                          (''exact_match'', PStr ''other.example.com'')]])])]\<rparr>"
  let ?n = "\<lparr>cache_key = None,
        entries = [(''match'',
                    PDict [(''prefix'', PStr ''/''),
                           (''headers'',
                            PList [PDict [(''name'', PStr ''x-user''),
                                          (''exact_match'', PStr ''u'')]])])]\<rparr>"
  have sni: "dict_find (entries ?a) ''_sni'' = Some (PDict ?sni)"
    "dict_find (entries ?b) ''_sni'' = Some (PDict ?sni)"
    "dict_find (entries ?n) ''_sni'' = None"
    "dict_find ?sni ''hosts'' = Some (PList (map PStr [''api.example.com'']))"
    by (simp_all add: dict_find_def)
  have base: "base_hosts ?a = Inr [''api.example.com'']"
    "base_hosts ?b = Inr [''api.example.com'']" "base_hosts ?n = Inr [''*'']"
    using host_constraints_cases [of ?a] host_constraints_cases [of ?b]
      host_constraints_cases [of ?n] sni
    by blast+
  have hs: "match_headers_of ?a
              = Inr (map PDict [[(''name'', PStr ''x-user''), (''exact_match'', PStr ''u'')]]
                     @ PDict [(''name'', PStr '':authority''),
                              (''exact_match'', PStr ''api.example.com'')] # [])"
    "match_headers_of ?b
              = Inr (map PDict []
                     @ PDict [(''name'', PStr '':authority''),
                              (''exact_match'', PStr ''other.example.com'')] # [])"
    "match_headers_of ?n
              = Inr (map PDict [[(''name'', PStr ''x-user''), (''exact_match'', PStr ''u'')]])"
    by (simp_all add: match_headers_of_def dict_get_default_def py_get_default_def as_dict_def
        py_iter_def)
  have ae: "\<forall>p \<in> set [[(''name'', PStr ''x-user''), (''exact_match'', PStr ''u'')]].
              \<not> authority_exact p"
    "\<forall>p \<in> set ([] :: pydict list). \<not> authority_exact p"
    "authority_exact [(''name'', PStr '':authority''),
                      (''exact_match'', PStr ''api.example.com'')]"
    "authority_exact [(''name'', PStr '':authority''),
                      (''exact_match'', PStr ''other.example.com'')]"
    "dict_get [(''name'', PStr '':authority''), (''exact_match'', PStr ''api.example.com'')]
       ''exact_match'' = PStr ''api.example.com''"
    "dict_get [(''name'', PStr '':authority''), (''exact_match'', PStr ''other.example.com'')]
       ''exact_match'' = PStr ''other.example.com''"
    by (simp_all add: authority_exact_def dict_get_def dict_find_def)
  have a: "host_constraints ?a True
         = Inr (if \<exists>glob \<in> set [''api.example.com''].
                     hostglob_matches glob ''api.example.com'' = Some True
                then {''api.example.com''} else {})"
    using host_constraints_cases [of ?a] base(1) hs(1) ae(1,3,5) by blast
  have b: "host_constraints ?b True
         = Inr (if \<exists>glob \<in> set [''api.example.com''].
                     hostglob_matches glob ''other.example.com'' = Some True
                then {''other.example.com''} else {})"
    using host_constraints_cases [of ?b] base(2) hs(2) ae(2,4,6) by blast
  have c: "host_constraints ?b False = Inr (set [''api.example.com''])"
    using host_constraints_cases [of ?b] base(2) by blast
  have d: "host_constraints ?n True = Inr (set [''*''])"
    using host_constraints_cases [of ?n] base(3) hs(3) ae(1) by blast
  from a b c d show ?thesis
    by (simp add: hostglob_matches_def)
qed

section \<open>Properties of the route cache\<close>

lemma set_update_subset: "set (AList.update k v al) \<subseteq> insert (k, v) (set al)"
  by (induction al) auto

lemma get_route_miss:
  assumes "cache_lookup s key = None"
    and "V2Route_init config ext irgroup mapping = Inr route"
  shows "get_route config ext s key irgroup mapping
       = Inr (length (heap s),
              \<lparr>heap = heap s @ [CRoute (route\<lparr>cache_key := Some key\<rparr>)],
               store = AList.update key (length (heap s)) (store s),
               links = links s @ [(irgroup, length (heap s))]\<rparr>)"
  using assms
  by (simp add: get_route_def alloc_def set_cache_key_def deref_def cache_add_def key_of_def
      cache_link_def)

lemma get_route_hit:
  assumes "cache_lookup s key = Some r" and "deref s r = Some (CRoute route)"
  shows "get_route config ext s key irgroup mapping = Inr (r, s)"
  using assms by (simp add: get_route_def)

lemma cache_ok_lookup:
  assumes "cache_ok s" and "cache_lookup s k = Some r"
  shows "r < length (heap s) \<and> key_of (heap s ! r) = Some k"
proof -
  from assms(2) have "(k, r) \<in> set (store s)"
    by (simp add: cache_lookup_def map_of_SomeD)
  with assms(1) show ?thesis by (auto simp: cache_ok_def)
qed

lemma get_route_cases:
  assumes "get_route config ext s key irgroup mapping = Inr (r, s')"
  shows "(cache_lookup s key = None
          \<and> (\<exists>route. V2Route_init config ext irgroup mapping = Inr route
                \<and> r = length (heap s)
                \<and> s' = \<lparr>heap = heap s @ [CRoute (route\<lparr>cache_key := Some key\<rparr>)],
                        store = AList.update key (length (heap s)) (store s),
                        links = links s @ [(irgroup, length (heap s))]\<rparr>))
       \<or> (cache_lookup s key = Some r \<and> s' = s \<and> (\<exists>route. deref s r = Some (CRoute route)))"
proof (cases "cache_lookup s key")
  case None
  with assms obtain route where v: "V2Route_init config ext irgroup mapping = Inr route"
    by (cases "V2Route_init config ext irgroup mapping") (simp_all add: get_route_def)
  from get_route_miss [OF None v] assms None v show ?thesis by simp
next
  case (Some r0)
  with assms show ?thesis
    by (auto simp: get_route_def split: option.splits cacheable.splits)
qed

lemma get_route_invariant:
  assumes "cache_ok s" and "get_route config ext s key irgroup mapping = Inr (r, s')"
  shows "cache_ok s'"
    and "cache_lookup s' key = Some r"
    and "\<And>k r0. cache_lookup s k = Some r0 \<Longrightarrow> cache_lookup s' k = Some r0"
proof -
  from get_route_cases [OF assms(2)]
  consider (miss) route where "cache_lookup s key = None"
      "V2Route_init config ext irgroup mapping = Inr route" "r = length (heap s)"
      "s' = \<lparr>heap = heap s @ [CRoute (route\<lparr>cache_key := Some key\<rparr>)],
             store = AList.update key (length (heap s)) (store s),
             links = links s @ [(irgroup, length (heap s))]\<rparr>"
    | (hit) "cache_lookup s key = Some r" "s' = s"
    by blast
  then have "cache_ok s' \<and> cache_lookup s' key = Some r
           \<and> (\<forall>k r0. cache_lookup s k = Some r0 \<longrightarrow> cache_lookup s' k = Some r0)"
  proof cases
    case miss
    have ok: "cache_ok s'"
      unfolding cache_ok_def
    proof (clarify)
      fix k r0
      assume "(k, r0) \<in> set (store s')"
      with miss(4) have "(k, r0) = (key, length (heap s)) \<or> (k, r0) \<in> set (store s)"
        using set_update_subset [of key "length (heap s)" "store s"] by auto
      then show "r0 < length (heap s') \<and> key_of (heap s' ! r0) = Some k"
      proof
        assume "(k, r0) = (key, length (heap s))"
        with miss(4) show ?thesis by (simp add: key_of_def)
      next
        assume "(k, r0) \<in> set (store s)"
        with assms(1) have "r0 < length (heap s) \<and> key_of (heap s ! r0) = Some k"
          by (auto simp: cache_ok_def)
        with miss(4) show ?thesis by (simp add: nth_append)
      qed
    qed
    have "cache_lookup s' key = Some r"
      using miss(3,4) by (simp add: cache_lookup_def update_conv')
    moreover have "cache_lookup s' k = Some r0" if "cache_lookup s k = Some r0" for k r0
      using that miss(1,4) by (auto simp: cache_lookup_def update_conv')
    ultimately show ?thesis using ok by blast
  next
    case hit
    with assms(1) show ?thesis by simp
  qed
  then show "cache_ok s'" and "cache_lookup s' key = Some r"
    and "\<And>k r0. cache_lookup s k = Some r0 \<Longrightarrow> cache_lookup s' k = Some r0"
    by blast+
qed

lemma get_routes_invariant:
  assumes "cache_ok s" and "get_routes config ext s reqs = Inr (rs, s')"
  shows "cache_ok s' \<and> length rs = length reqs
       \<and> (\<forall>k r0. cache_lookup s k = Some r0 \<longrightarrow> cache_lookup s' k = Some r0)
       \<and> (\<forall>i < length reqs. cache_lookup s' (req_key (reqs ! i)) = Some (rs ! i))"
  using assms
proof (induction reqs arbitrary: s rs)
  case Nil
  then show ?case by simp
next
  case (Cons q qs)
  from Cons.prems(2) obtain r s1 rs1 where
    g: "get_route config ext s (req_key q) (req_group q) (req_mapping q) = Inr (r, s1)"
    and gs: "get_routes config ext s1 qs = Inr (rs1, s')"
    and rs: "rs = r # rs1"
    by (auto simp: ebind_eq_Inr)
  note inv = get_route_invariant [OF Cons.prems(1) g]
  from Cons.IH [OF inv(1) gs]
  have ih: "cache_ok s'" "length rs1 = length qs"
    "\<And>k r0. cache_lookup s1 k = Some r0 \<Longrightarrow> cache_lookup s' k = Some r0"
    "\<And>i. i < length qs \<Longrightarrow> cache_lookup s' (req_key (qs ! i)) = Some (rs1 ! i)"
    by blast+
  have "cache_lookup s' (req_key ((q # qs) ! i)) = Some (rs ! i)" if "i < length (q # qs)" for i
  proof (cases i)
    case 0
    with inv(2) ih(3) rs show ?thesis by simp
  next
    case (Suc j)
    with that ih(4) rs show ?thesis by simp
  qed
  moreover have "cache_lookup s' k = Some r0" if "cache_lookup s k = Some r0" for k r0
    using that inv(3) ih(3) by blast
  ultimately show ?case using ih(1,2) rs by simp
qed
text \<open>
  C3. On a well-formed cache, a request for a key that the store does not hold compiles the
  route, allocates it at a fresh address, sets its cache key to the requested key, stores it
  under that key and records the link from the group to it; a request for a key that the
  store holds returns the stored route and leaves the cache as it is. Hence in every pass of
  requests over one cache, two requests return the same address if and only if they have the
  same key, and the object at the address returned for a request carries the key of the
  request.
\<close>

theorem get_route_identity:
  assumes "cache_ok s"
  shows "(\<forall>route. cache_lookup s key = None \<longrightarrow>
            V2Route_init config ext irgroup mapping = Inr route \<longrightarrow>
            (\<exists>s'. get_route config ext s key irgroup mapping = Inr (length (heap s), s')
               \<and> deref s (length (heap s)) = None
               \<and> deref s' (length (heap s)) = Some (CRoute (route\<lparr>cache_key := Some key\<rparr>))
               \<and> cache_lookup s' key = Some (length (heap s))
               \<and> (irgroup, length (heap s)) \<in> set (links s')))
       \<and> (\<forall>r route. cache_lookup s key = Some r \<longrightarrow> deref s r = Some (CRoute route) \<longrightarrow>
            get_route config ext s key irgroup mapping = Inr (r, s))
       \<and> (\<forall>reqs rs s'. get_routes config ext s reqs = Inr (rs, s') \<longrightarrow>
            length rs = length reqs \<and> cache_ok s'
            \<and> (\<forall>i < length reqs. \<forall>j < length reqs.
                  (rs ! i = rs ! j) = (req_key (reqs ! i) = req_key (reqs ! j)))
            \<and> (\<forall>i < length reqs.
                  rs ! i < length (heap s')
                  \<and> key_of (heap s' ! (rs ! i)) = Some (req_key (reqs ! i))))"
proof -
  have miss: "\<exists>s'. get_route config ext s key irgroup mapping = Inr (length (heap s), s')
               \<and> deref s (length (heap s)) = None
               \<and> deref s' (length (heap s)) = Some (CRoute (route\<lparr>cache_key := Some key\<rparr>))
               \<and> cache_lookup s' key = Some (length (heap s))
               \<and> (irgroup, length (heap s)) \<in> set (links s')"
    if "cache_lookup s key = None" and "V2Route_init config ext irgroup mapping = Inr route"
    for route
    using get_route_miss [OF that]
    by (simp add: deref_def cache_lookup_def update_conv')
  have hit: "get_route config ext s key irgroup mapping = Inr (r, s)"
    if "cache_lookup s key = Some r" and "deref s r = Some (CRoute route)" for r route
    using that by (rule get_route_hit)
  have pass: "length rs = length reqs \<and> cache_ok s'
            \<and> (\<forall>i < length reqs. \<forall>j < length reqs.
                  (rs ! i = rs ! j) = (req_key (reqs ! i) = req_key (reqs ! j)))
            \<and> (\<forall>i < length reqs.
                  rs ! i < length (heap s')
                  \<and> key_of (heap s' ! (rs ! i)) = Some (req_key (reqs ! i)))"
    if g: "get_routes config ext s reqs = Inr (rs, s')" for reqs rs s'
  proof -
    note inv = get_routes_invariant [OF assms g]
    have len: "length rs = length reqs" and ok: "cache_ok s'"
      using inv by blast+
    have look: "cache_lookup s' (req_key (reqs ! i)) = Some (rs ! i)" if "i < length reqs" for i
      using inv that by blast
    have obj: "rs ! i < length (heap s')
             \<and> key_of (heap s' ! (rs ! i)) = Some (req_key (reqs ! i))"
      if "i < length reqs" for i
      using cache_ok_lookup [OF ok look [OF that]] .
    have same: "(rs ! i = rs ! j) = (req_key (reqs ! i) = req_key (reqs ! j))"
      if i: "i < length reqs" and j: "j < length reqs" for i j
    proof
      assume "rs ! i = rs ! j"
      with obj [OF i] obj [OF j] show "req_key (reqs ! i) = req_key (reqs ! j)" by simp
    next
      assume "req_key (reqs ! i) = req_key (reqs ! j)"
      with look [OF i] look [OF j] show "rs ! i = rs ! j" by simp
    qed
    from len ok obj same show ?thesis by blast
  qed
  from miss hit pass show ?thesis by blast
qed
lemma redirect_route_exists:
  "\<exists>route. V2Route_init (sample_config None False) (sample_externals ''prefix'')
       [(''group_id'', PStr gid), (''prefix'', PStr ''/old/''),
        (''host_redirect'', PDict [(''service'', PStr ''example.com'')])] []
     = Inr route"
  by (simp add: eval_defs)

theorem get_route_identity_witness:
  "cache_ok \<lparr>heap = [], store = [], links = []\<rparr>
   \<and> (\<exists>rs s'.
        get_routes (sample_config None False) (sample_externals ''prefix'')
          \<lparr>heap = [], store = [], links = []\<rparr>
          [\<lparr>req_key = ''Route-g1-hostredirect'',
            req_group = [(''group_id'', PStr ''g1''), (''prefix'', PStr ''/old/''),
                         (''host_redirect'', PDict [(''service'', PStr ''example.com'')])],
            req_mapping = []\<rparr>,
           \<lparr>req_key = ''Route-g2-hostredirect'',
            req_group = [(''group_id'', PStr ''g2''), (''prefix'', PStr ''/old/''),
                         (''host_redirect'', PDict [(''service'', PStr ''example.com'')])],
            req_mapping = []\<rparr>,
           \<lparr>req_key = ''Route-g1-hostredirect'',
            req_group = [(''group_id'', PStr ''g1''), (''prefix'', PStr ''/old/''),
                         (''host_redirect'', PDict [(''service'', PStr ''example.com'')])],
            req_mapping = []\<rparr>]
        = Inr (rs, s')
      \<and> rs ! 0 = rs ! 2 \<and> rs ! 0 \<noteq> rs ! 1)"
proof -
  let ?c = "sample_config None False" and ?e = "sample_externals ''prefix''"
  let ?s = "\<lparr>heap = [], store = [], links = []\<rparr>"
  let ?g1 = "[(''group_id'', PStr ''g1''), (''prefix'', PStr ''/old/''),
              (''host_redirect'', PDict [(''service'', PStr ''example.com'')])]"
  let ?g2 = "[(''group_id'', PStr ''g2''), (''prefix'', PStr ''/old/''),
              (''host_redirect'', PDict [(''service'', PStr ''example.com'')])]"
  let ?q1 = "\<lparr>req_key = ''Route-g1-hostredirect'', req_group = ?g1, req_mapping = []\<rparr>"
  let ?q2 = "\<lparr>req_key = ''Route-g2-hostredirect'', req_group = ?g2, req_mapping = []\<rparr>"
  have ok: "cache_ok ?s"
    by (simp add: cache_ok_def)
  from redirect_route_exists [of "''g1''"] obtain r1
    where r1: "V2Route_init ?c ?e ?g1 [] = Inr r1" ..
  from redirect_route_exists [of "''g2''"] obtain r2
    where r2: "V2Route_init ?c ?e ?g2 [] = Inr r2" ..
  have "\<exists>rs s'. get_routes ?c ?e ?s [?q1, ?q2, ?q1] = Inr (rs, s')"
    using r1 r2
    by (simp add: get_route_def cache_lookup_def alloc_def set_cache_key_def deref_def
        cache_add_def key_of_def cache_link_def)
  then obtain rs s' where g: "get_routes ?c ?e ?s [?q1, ?q2, ?q1] = Inr (rs, s')"
    by blast
  from get_route_identity [OF ok, of "[]" ?c ?e "[]" "[]"] g
  have "\<forall>i < length [?q1, ?q2, ?q1]. \<forall>j < length [?q1, ?q2, ?q1].
          (rs ! i = rs ! j) = (req_key ([?q1, ?q2, ?q1] ! i) = req_key ([?q1, ?q2, ?q1] ! j))"
    by blast
  then have "(rs ! 0 = rs ! 2) = (req_key ([?q1, ?q2, ?q1] ! 0) = req_key ([?q1, ?q2, ?q1] ! 2))"
    and "(rs ! 0 = rs ! 1) = (req_key ([?q1, ?q2, ?q1] ! 0) = req_key ([?q1, ?q2, ?q1] ! 1))"
    by simp_all
  then have "rs ! 0 = rs ! 2" and "rs ! 0 \<noteq> rs ! 1"
    by simp_all
  with ok g show ?thesis by blast
qed

end
